theory Spec2Isabelle
  imports Complex_Main
begin

section \<open>SmartDrive sensor fusion: the data model\<close>

text \<open>
  The module \<^verbatim>\<open>software/fusion/sensor_fusion.py\<close> keeps three bounded buffers
  (vision, OBD, driver fatigue), a table of fusion weights and a table of alert
  thresholds, and computes four risks and a safety assessment from them.

  Numbers: a Python float is read here as a real number, so arithmetic is exact and
  rounding is outside the model. The non-finite values that the module produces
  itself from finite inputs are modelled: \<^verbatim>\<open>float('inf')\<close> for "no object
  distance" is a constructor of its own, and the sum of the confidences in
  \<^verbatim>\<open>adjust_fusion_weights\<close> overflows to infinity as a double does.

  Dictionaries with a fixed set of keys are records; the field names are the Python
  keys, prefixed by the dictionary they belong to, since several dictionaries share
  keys (\<^verbatim>\<open>timestamp\<close>, \<^verbatim>\<open>confidence\<close>, \<^verbatim>\<open>lane_departure\<close>). A key read with
  \<^verbatim>\<open>d.get(key, default)\<close> is an optional field of the input record, \<open>None\<close> when the
  key is absent. The two keys whose value the module takes apart,
  \<^verbatim>\<open>detected_objects\<close> and \<^verbatim>\<open>behavior_analysis\<close>, are a \<open>field\<close>: absent, present
  with the value \<^verbatim>\<open>None\<close>, or present with a value of the expected kind. The values
  of the other keys are of the kind the producers give them (a number, a truth
  value).
\<close>

datatype pyfloat = Fin real | PosInf

datatype py_error = ValueError | TypeError | AttributeError

datatype 'a field = Missing | IsNone | Holds 'a

subsection \<open>The producers' dictionaries\<close>

text \<open>
  An item of \<^verbatim>\<open>detected_objects\<close>: a dictionary, of which the module reads the key
  \<^verbatim>\<open>distance\<close> only (\<open>None\<close> when the key is absent or holds \<^verbatim>\<open>None\<close>, as the
  object detector leaves it for a class it cannot range), or something that is not
  a dictionary.
\<close>

datatype detected_object = Detection "pyfloat option" | NotADict

record vision_data =
  vd_lane_departure_warning :: "bool option"
  vd_collision_warning :: "bool option"
  vd_detected_objects :: "detected_object list field"
  vd_confidence :: "real option"

record behavior_analysis =
  ba_aggressive_acceleration :: "bool option"
  ba_aggressive_braking :: "bool option"
  ba_excessive_speed :: "bool option"
  ba_engine_stress :: "bool option"

record obd_data =
  od_behavior_analysis :: "behavior_analysis field"
  od_speed :: "real option"
  od_rpm :: "real option"
  od_throttle_position :: "real option"

record fatigue_data =
  fd_fatigue_score :: "real option"
  fd_blink_detected :: "bool option"
  fd_yawn_detected :: "bool option"
  fd_ear :: "real option"
  fd_confidence :: "real option"

subsection \<open>The buffered entries\<close>

record vision_entry =
  v_timestamp :: real
  v_lane_departure :: bool
  v_collision_warning :: bool
  v_objects_detected :: nat
  v_closest_object_distance :: pyfloat
  v_confidence :: real

record obd_entry =
  o_timestamp :: real
  o_speed :: real
  o_rpm :: real
  o_throttle_position :: real
  o_aggressive_acceleration :: bool
  o_aggressive_braking :: bool
  o_excessive_speed :: bool
  o_engine_stress :: bool

record fatigue_entry =
  f_timestamp :: real
  f_fatigue_score :: real
  f_blink_detected :: bool
  f_yawn_detected :: bool
  f_ear :: real
  f_confidence :: real

subsection \<open>Bounded buffers\<close>

text \<open>
  \<^verbatim>\<open>collections.deque(maxlen=n)\<close>: the items, oldest first, and the bound. Appending
  to a full deque discards one item from the other end; a deque of bound 0 stays
  empty. A negative bound is refused at construction with \<^verbatim>\<open>ValueError\<close>
  (see \<open>SensorFusion_init\<close> below).
\<close>

record 'a deque =
  items :: "'a list"
  maxlen :: nat

definition deque_append :: "'a deque \<Rightarrow> 'a \<Rightarrow> 'a deque" where
  "deque_append d x =
     (let ys = items d @ [x]
      in d\<lparr>items := (if maxlen d < length ys then tl ys else ys)\<rparr>)"

subsection \<open>Weights, thresholds and the engine\<close>

text \<open>
  \<^verbatim>\<open>self.weights\<close> is created with the keys \<^verbatim>\<open>vision\<close>, \<^verbatim>\<open>obd\<close>, \<^verbatim>\<open>fatigue\<close>, and
  no statement of the module adds or removes a key (\<^verbatim>\<open>adjust_fusion_weights\<close>
  assigns only to keys that are already present), so it is a record of three fields.
  The same holds for \<^verbatim>\<open>self.alert_thresholds\<close>, which the module only reads.
\<close>

record fusion_weights =
  w_vision :: real
  w_obd :: real
  w_fatigue :: real

record thresholds =
  th_collision_risk :: real
  th_lane_departure :: real
  th_driver_fatigue :: real
  th_aggressive_driving :: real

record sensor_fusion =
  buffer_size :: int
  vision_buffer :: "vision_entry deque"
  obd_buffer :: "obd_entry deque"
  fatigue_buffer :: "fatigue_entry deque"
  weights :: fusion_weights
  alert_thresholds :: thresholds

definition initial_weights :: fusion_weights where
  "initial_weights = \<lparr>w_vision = 5 / 10, w_obd = 3 / 10, w_fatigue = 2 / 10\<rparr>"

definition initial_thresholds :: thresholds where
  "initial_thresholds =
     \<lparr>th_collision_risk = 7 / 10, th_lane_departure = 6 / 10,
      th_driver_fatigue = 8 / 10, th_aggressive_driving = 7 / 10\<rparr>"

text \<open>\<^verbatim>\<open>SensorFusion.__init__(buffer_size)\<close>; the default argument is 10.\<close>

definition SensorFusion_init :: "int \<Rightarrow> py_error + sensor_fusion" where
  "SensorFusion_init n =
     (if n < 0 then Inl ValueError
      else Inr \<lparr>buffer_size = n,
                vision_buffer = \<lparr>items = [], maxlen = nat n\<rparr>,
                obd_buffer = \<lparr>items = [], maxlen = nat n\<rparr>,
                fatigue_buffer = \<lparr>items = [], maxlen = nat n\<rparr>,
                weights = initial_weights,
                alert_thresholds = initial_thresholds\<rparr>)"

section \<open>Ingestion\<close>

text \<open>
  \<^verbatim>\<open>_get_closest_object_distance\<close>. The comprehension keeps an object when
  \<^verbatim>\<open>obj.get('distance')\<close> is truthy: the key is present and its value is neither
  \<^verbatim>\<open>None\<close> nor zero. \<^verbatim>\<open>min\<close> keeps the first smallest item.
\<close>

fun pf_less :: "pyfloat \<Rightarrow> pyfloat \<Rightarrow> bool" where
  "pf_less (Fin a) (Fin b) = (a < b)"
| "pf_less (Fin a) PosInf = True"
| "pf_less PosInf y = False"

fun py_min :: "pyfloat \<Rightarrow> pyfloat list \<Rightarrow> pyfloat" where
  "py_min best [] = best"
| "py_min best (x # xs) = py_min (if pf_less x best then x else best) xs"

fun truthy_distance :: "pyfloat option \<Rightarrow> bool" where
  "truthy_distance None = False"
| "truthy_distance (Some (Fin r)) = (r \<noteq> 0)"
| "truthy_distance (Some PosInf) = True"

text \<open>
  The comprehension calls \<^verbatim>\<open>obj.get\<close> on each item in turn, which raises
  \<^verbatim>\<open>AttributeError\<close> on an item that is not a dictionary.
\<close>

fun distances_of :: "detected_object list \<Rightarrow> py_error + pyfloat list" where
  "distances_of [] = Inr []"
| "distances_of (NotADict # objects) = Inl AttributeError"
| "distances_of (Detection d # objects) =
     (case distances_of objects of
        Inl e \<Rightarrow> Inl e
      | Inr ds \<Rightarrow>
          Inr (if truthy_distance d
               then (case d of None \<Rightarrow> PosInf | Some x \<Rightarrow> x) # ds else ds))"

text \<open>\<^verbatim>\<open>if not objects\<close> holds for an absent key, for \<^verbatim>\<open>None\<close> and for the empty list.\<close>

definition get_closest_object_distance :: "vision_data \<Rightarrow> py_error + pyfloat" where
  "get_closest_object_distance vision_data =
     (case vd_detected_objects vision_data of
        Missing \<Rightarrow> Inr PosInf
      | IsNone \<Rightarrow> Inr PosInf
      | Holds objects \<Rightarrow>
          if objects = [] then Inr PosInf
          else (case distances_of objects of
                  Inl e \<Rightarrow> Inl e
                | Inr [] \<Rightarrow> Inr PosInf
                | Inr (d # ds) \<Rightarrow> Inr (py_min d ds)))"

text \<open>
  The three \<^verbatim>\<open>add_*_data\<close> methods. The first argument is the reading of
  \<^verbatim>\<open>time.time()\<close> that stamps the entry. Each method builds its entry first and
  appends it last, so a call that raises leaves the engine as it was: the result is
  the exception raised, if any, and the engine after the call.

  In \<^verbatim>\<open>add_vision_data\<close>, \<^verbatim>\<open>len(vision_data.get('detected_objects', []))\<close> raises
  \<^verbatim>\<open>TypeError\<close> when the key holds \<^verbatim>\<open>None\<close>, and the closest distance is computed
  after it. In \<^verbatim>\<open>add_obd_data\<close>, \<^verbatim>\<open>behavior_analysis.get\<close> raises \<^verbatim>\<open>AttributeError\<close>
  when the key holds \<^verbatim>\<open>None\<close>. \<^verbatim>\<open>add_fatigue_data\<close> reads its argument with
  \<^verbatim>\<open>.get\<close> only and has no failing branch.
\<close>

definition get_or :: "'a \<Rightarrow> 'a option \<Rightarrow> 'a" where
  "get_or dflt v = (case v of None \<Rightarrow> dflt | Some x \<Rightarrow> x)"

definition objects_detected_of :: "vision_data \<Rightarrow> py_error + nat" where
  "objects_detected_of vision_data =
     (case vd_detected_objects vision_data of
        Missing \<Rightarrow> Inr 0
      | IsNone \<Rightarrow> Inl TypeError
      | Holds objects \<Rightarrow> Inr (length objects))"

definition vision_entry_with :: "real \<Rightarrow> vision_data \<Rightarrow> nat \<Rightarrow> pyfloat \<Rightarrow> vision_entry" where
  "vision_entry_with now vision_data objects_detected closest =
     \<lparr>v_timestamp = now,
      v_lane_departure = get_or False (vd_lane_departure_warning vision_data),
      v_collision_warning = get_or False (vd_collision_warning vision_data),
      v_objects_detected = objects_detected,
      v_closest_object_distance = closest,
      v_confidence = get_or 1 (vd_confidence vision_data)\<rparr>"

definition vision_entry_of :: "real \<Rightarrow> vision_data \<Rightarrow> py_error + vision_entry" where
  "vision_entry_of now vision_data =
     (case objects_detected_of vision_data of
        Inl e \<Rightarrow> Inl e
      | Inr objects_detected \<Rightarrow>
          (case get_closest_object_distance vision_data of
             Inl e \<Rightarrow> Inl e
           | Inr closest \<Rightarrow>
               Inr (vision_entry_with now vision_data objects_detected closest)))"

definition add_vision_data ::
  "real \<Rightarrow> vision_data \<Rightarrow> sensor_fusion \<Rightarrow> py_error option \<times> sensor_fusion" where
  "add_vision_data now vision_data s =
     (case vision_entry_of now vision_data of
        Inl e \<Rightarrow> (Some e, s)
      | Inr vision_entry \<Rightarrow>
          (None, s\<lparr>vision_buffer := deque_append (vision_buffer s) vision_entry\<rparr>))"

definition empty_behavior :: behavior_analysis where
  "empty_behavior =
     \<lparr>ba_aggressive_acceleration = None, ba_aggressive_braking = None,
      ba_excessive_speed = None, ba_engine_stress = None\<rparr>"

definition obd_entry_with :: "real \<Rightarrow> obd_data \<Rightarrow> behavior_analysis \<Rightarrow> obd_entry" where
  "obd_entry_with now obd_data behavior =
     \<lparr>o_timestamp = now,
      o_speed = get_or 0 (od_speed obd_data),
      o_rpm = get_or 0 (od_rpm obd_data),
      o_throttle_position = get_or 0 (od_throttle_position obd_data),
      o_aggressive_acceleration = get_or False (ba_aggressive_acceleration behavior),
      o_aggressive_braking = get_or False (ba_aggressive_braking behavior),
      o_excessive_speed = get_or False (ba_excessive_speed behavior),
      o_engine_stress = get_or False (ba_engine_stress behavior)\<rparr>"

definition obd_entry_of :: "real \<Rightarrow> obd_data \<Rightarrow> py_error + obd_entry" where
  "obd_entry_of now obd_data =
     (case od_behavior_analysis obd_data of
        Missing \<Rightarrow> Inr (obd_entry_with now obd_data empty_behavior)
      | IsNone \<Rightarrow> Inl AttributeError
      | Holds behavior \<Rightarrow> Inr (obd_entry_with now obd_data behavior))"

definition add_obd_data ::
  "real \<Rightarrow> obd_data \<Rightarrow> sensor_fusion \<Rightarrow> py_error option \<times> sensor_fusion" where
  "add_obd_data now obd_data s =
     (case obd_entry_of now obd_data of
        Inl e \<Rightarrow> (Some e, s)
      | Inr obd_entry \<Rightarrow>
          (None, s\<lparr>obd_buffer := deque_append (obd_buffer s) obd_entry\<rparr>))"

definition fatigue_entry_of :: "real \<Rightarrow> fatigue_data \<Rightarrow> fatigue_entry" where
  "fatigue_entry_of now fatigue_data =
     \<lparr>f_timestamp = now,
      f_fatigue_score = get_or 0 (fd_fatigue_score fatigue_data),
      f_blink_detected = get_or False (fd_blink_detected fatigue_data),
      f_yawn_detected = get_or False (fd_yawn_detected fatigue_data),
      f_ear = get_or (3 / 10) (fd_ear fatigue_data),
      f_confidence = get_or 1 (fd_confidence fatigue_data)\<rparr>"

definition add_fatigue_data ::
  "real \<Rightarrow> fatigue_data \<Rightarrow> sensor_fusion \<Rightarrow> py_error option \<times> sensor_fusion" where
  "add_fatigue_data now fatigue_data s =
     (None,
      s\<lparr>fatigue_buffer :=
          deque_append (fatigue_buffer s) (fatigue_entry_of now fatigue_data)\<rparr>)"

section \<open>The four risks\<close>

text \<open>
  \<^verbatim>\<open>calculate_collision_risk\<close>. The guard returns 0.0 as soon as one of the two
  buffers is empty; below it both \<^verbatim>\<open>[-1]\<close> reads are on non-empty buffers.
\<close>

definition vision_risk_of :: "vision_entry \<Rightarrow> real" where
  "vision_risk_of latest_vision =
     (let vision_risk = (if v_collision_warning latest_vision then 8 / 10 else 0)
      in case v_closest_object_distance latest_vision of
           PosInf \<Rightarrow> vision_risk
         | Fin closest_distance \<Rightarrow>
             vision_risk + max 0 (1 - closest_distance / 20) * (6 / 10))"

definition obd_risk_of :: "obd_entry \<Rightarrow> real" where
  "obd_risk_of latest_obd =
     (let speed = o_speed latest_obd;
          obd_risk = (if speed > 60 then (speed - 60) / 100 * (4 / 10) else 0)
      in if o_aggressive_acceleration latest_obd \<or> o_aggressive_braking latest_obd
         then obd_risk + 3 / 10 else obd_risk)"

definition calculate_collision_risk :: "sensor_fusion \<Rightarrow> real" where
  "calculate_collision_risk s =
     (if items (vision_buffer s) = [] \<or> items (obd_buffer s) = [] then 0
      else (let latest_vision = last (items (vision_buffer s));
                latest_obd = last (items (obd_buffer s));
                total_risk = vision_risk_of latest_vision * w_vision (weights s)
                             + obd_risk_of latest_obd * w_obd (weights s)
            in min total_risk 1))"

text \<open>
  \<^verbatim>\<open>calculate_lane_departure_risk\<close>. The loop runs over the buffer newest first and
  breaks at the first entry older than five seconds; \<open>current_time\<close> is the reading
  of \<^verbatim>\<open>time.time()\<close> taken inside the method.
\<close>

fun count_recent_warnings :: "real \<Rightarrow> vision_entry list \<Rightarrow> nat \<Rightarrow> nat" where
  "count_recent_warnings current_time [] recent_warnings = recent_warnings"
| "count_recent_warnings current_time (entry # rest) recent_warnings =
     (if current_time - v_timestamp entry > 5 then recent_warnings
      else count_recent_warnings current_time rest
             (if v_lane_departure entry then recent_warnings + 1 else recent_warnings))"

definition calculate_lane_departure_risk :: "real \<Rightarrow> sensor_fusion \<Rightarrow> real" where
  "calculate_lane_departure_risk current_time s =
     (let buf = items (vision_buffer s)
      in if buf = [] then 0
         else min (real (count_recent_warnings current_time (rev buf) 0) / real (length buf)) 1)"

definition calculate_driver_fatigue_risk :: "sensor_fusion \<Rightarrow> real" where
  "calculate_driver_fatigue_risk s =
     (if items (fatigue_buffer s) = [] then 0
      else (let latest_fatigue = last (items (fatigue_buffer s));
                fatigue_risk = f_fatigue_score latest_fatigue / 100;
                recent_yawns = length (filter f_yawn_detected (items (fatigue_buffer s)))
            in min (if recent_yawns > 2 then fatigue_risk + 2 / 10 else fatigue_risk) 1))"

definition is_aggressive :: "obd_entry \<Rightarrow> bool" where
  "is_aggressive entry \<longleftrightarrow>
     o_aggressive_acceleration entry \<or> o_aggressive_braking entry \<or>
     o_excessive_speed entry \<or> o_engine_stress entry"

definition calculate_aggressive_driving_risk :: "sensor_fusion \<Rightarrow> real" where
  "calculate_aggressive_driving_risk s =
     (let buf = items (obd_buffer s)
      in if buf = [] then 0
         else (let aggressive_count = length (filter is_aggressive buf);
                   total_entries = length buf
               in if total_entries > 0 then real aggressive_count / real total_entries else 0))"

section \<open>The assessment\<close>

record risk_set =
  r_collision :: real
  r_lane_departure :: real
  r_driver_fatigue :: real
  r_aggressive_driving :: real

record alert =
  al_type :: string
  al_severity :: string
  al_message :: string

record assessment =
  as_timestamp :: real
  as_risks :: risk_set
  as_alerts :: "alert list"
  as_recommendations :: "string list"
  as_overall_safety_score :: real

definition collision_alert :: alert where
  "collision_alert =
     \<lparr>al_type = ''COLLISION_WARNING'', al_severity = ''HIGH'',
      al_message = ''Collision risk detected! Maintain safe distance.''\<rparr>"

definition lane_alert :: alert where
  "lane_alert =
     \<lparr>al_type = ''LANE_DEPARTURE'', al_severity = ''MEDIUM'',
      al_message = ''Lane departure detected. Return to lane.''\<rparr>"

definition fatigue_alert :: alert where
  "fatigue_alert =
     \<lparr>al_type = ''FATIGUE_WARNING'', al_severity = ''HIGH'',
      al_message = ''Driver fatigue detected. Take a break.''\<rparr>"

definition aggressive_alert :: alert where
  "aggressive_alert =
     \<lparr>al_type = ''AGGRESSIVE_DRIVING'', al_severity = ''MEDIUM'',
      al_message = ''Aggressive driving detected. Drive more calmly.''\<rparr>"

text \<open>The four threshold tests, in the order of the source; each appends at most once.\<close>

definition alerts_of :: "thresholds \<Rightarrow> risk_set \<Rightarrow> alert list" where
  "alerts_of th risks =
     (if r_collision risks > th_collision_risk th then [collision_alert] else [])
     @ (if r_lane_departure risks > th_lane_departure th then [lane_alert] else [])
     @ (if r_driver_fatigue risks > th_driver_fatigue th then [fatigue_alert] else [])
     @ (if r_aggressive_driving risks > th_aggressive_driving th then [aggressive_alert] else [])"

definition recommendations_of :: "risk_set \<Rightarrow> string list" where
  "recommendations_of risks =
     (if r_collision risks > 3 / 10 then [''Increase following distance''] else [])
     @ (if r_driver_fatigue risks > 5 / 10 then [''Consider taking a break''] else [])
     @ (if r_aggressive_driving risks > 4 / 10
        then [''Reduce acceleration and maintain steady speed''] else [])"

definition safety_score_of :: "risk_set \<Rightarrow> real" where
  "safety_score_of risks =
     (let weighted_risk =
            r_collision risks * (4 / 10) + r_lane_departure risks * (2 / 10)
            + r_driver_fatigue risks * (3 / 10) + r_aggressive_driving risks * (1 / 10)
      in max 0 (100 - weighted_risk * 100))"

text \<open>
  \<^verbatim>\<open>generate_comprehensive_assessment\<close> and \<^verbatim>\<open>get_data_summary\<close> are methods of the
  engine: each returns its result together with the engine as the call leaves it.
  \<open>now\<close> is the clock reading that stamps the result, \<open>current_time\<close> the later one
  taken by the lane departure risk.
\<close>

definition generate_comprehensive_assessment ::
  "real \<Rightarrow> real \<Rightarrow> sensor_fusion \<Rightarrow> assessment \<times> sensor_fusion" where
  "generate_comprehensive_assessment now current_time s =
     (let risks = \<lparr>r_collision = calculate_collision_risk s,
                   r_lane_departure = calculate_lane_departure_risk current_time s,
                   r_driver_fatigue = calculate_driver_fatigue_risk s,
                   r_aggressive_driving = calculate_aggressive_driving_risk s\<rparr>
      in (\<lparr>as_timestamp = now,
           as_risks = risks,
           as_alerts = alerts_of (alert_thresholds s) risks,
           as_recommendations = recommendations_of risks,
           as_overall_safety_score = safety_score_of risks\<rparr>, s))"

record data_summary =
  ds_vision_entries :: nat
  ds_obd_entries :: nat
  ds_fatigue_entries :: nat
  ds_last_update :: real
  ds_fusion_weights :: fusion_weights

definition get_data_summary :: "real \<Rightarrow> sensor_fusion \<Rightarrow> data_summary \<times> sensor_fusion" where
  "get_data_summary now s =
     (\<lparr>ds_vision_entries = length (items (vision_buffer s)),
       ds_obd_entries = length (items (obd_buffer s)),
       ds_fatigue_entries = length (items (fatigue_buffer s)),
       ds_last_update = now,
       ds_fusion_weights = weights s\<rparr>, s)"

section \<open>Adjusting the weights\<close>

text \<open>
  \<^verbatim>\<open>adjust_fusion_weights(sensor_confidence)\<close>. The argument is a dictionary; its
  items are an association list in insertion order, and a dictionary has no key twice
  (\<open>is_dict\<close>). The loop assigns to the keys that \<^verbatim>\<open>self.weights\<close> already has.

  \<^verbatim>\<open>sum\<close> adds the values one after the other as floats. A float sum whose
  magnitude reaches \<open>float_overflow\<close>, the point from which a double rounds to
  infinity, is infinite from there on; below it the sum is read as the real number.
  An infinite total passes or fails the test \<^verbatim>\<open>total_confidence > 0\<close> by its sign,
  and a finite confidence divided by it is zero. For confidences that are not
  negative, no quotient exceeds 1.
\<close>

datatype float_total = FinTotal real | PosInfTotal | NegInfTotal

definition float_overflow :: real where
  "float_overflow = 2 ^ 1024 - 2 ^ 970"

fun add_to_total :: "float_total \<Rightarrow> real \<Rightarrow> float_total" where
  "add_to_total (FinTotal a) c =
     (if float_overflow \<le> a + c then PosInfTotal
      else if a + c \<le> - float_overflow then NegInfTotal
      else FinTotal (a + c))"
| "add_to_total PosInfTotal c = PosInfTotal"
| "add_to_total NegInfTotal c = NegInfTotal"

definition py_sum :: "real list \<Rightarrow> float_total" where
  "py_sum values = foldl add_to_total (FinTotal 0) values"

fun total_positive :: "float_total \<Rightarrow> bool" where
  "total_positive (FinTotal t) = (t > 0)"
| "total_positive PosInfTotal = True"
| "total_positive NegInfTotal = False"

fun divide_by_total :: "real \<Rightarrow> float_total \<Rightarrow> real" where
  "divide_by_total confidence (FinTotal t) = confidence / t"
| "divide_by_total confidence PosInfTotal = 0"
| "divide_by_total confidence NegInfTotal = 0"

definition is_dict :: "(string \<times> real) list \<Rightarrow> bool" where
  "is_dict sensor_confidence \<longleftrightarrow> distinct (map fst sensor_confidence)"

definition set_weight :: "fusion_weights \<Rightarrow> string \<Rightarrow> real \<Rightarrow> fusion_weights" where
  "set_weight w sensor v =
     (if sensor = ''vision'' then w\<lparr>w_vision := v\<rparr>
      else if sensor = ''obd'' then w\<lparr>w_obd := v\<rparr>
      else if sensor = ''fatigue'' then w\<lparr>w_fatigue := v\<rparr>
      else w)"

fun adjust_loop ::
  "float_total \<Rightarrow> (string \<times> real) list \<Rightarrow> fusion_weights \<Rightarrow> fusion_weights" where
  "adjust_loop total_confidence [] w = w"
| "adjust_loop total_confidence ((sensor, confidence) # rest) w =
     adjust_loop total_confidence rest
       (set_weight w sensor (divide_by_total confidence total_confidence))"

definition adjust_fusion_weights :: "(string \<times> real) list \<Rightarrow> sensor_fusion \<Rightarrow> sensor_fusion" where
  "adjust_fusion_weights sensor_confidence s =
     (let total_confidence = py_sum (map snd sensor_confidence)
      in if total_positive total_confidence
         then s\<lparr>weights := adjust_loop total_confidence sensor_confidence (weights s)\<rparr>
         else s)"

section \<open>Sequences of calls\<close>

text \<open>
  The callers (\<^verbatim>\<open>software/main.py\<close>) drive the engine by a sequence of method calls.
  A call carries its arguments and the clock readings it takes; \<open>step\<close> is the engine
  after the call, \<open>run\<close> the engine after a sequence of calls.
\<close>

datatype call =
    AddVision real vision_data
  | AddObd real obd_data
  | AddFatigue real fatigue_data
  | AdjustWeights "(string \<times> real) list"
  | GenerateAssessment real real
  | GetDataSummary real

fun step :: "sensor_fusion \<Rightarrow> call \<Rightarrow> sensor_fusion" where
  "step s (AddVision now d) = snd (add_vision_data now d s)"
| "step s (AddObd now d) = snd (add_obd_data now d s)"
| "step s (AddFatigue now d) = snd (add_fatigue_data now d s)"
| "step s (AdjustWeights sensor_confidence) = adjust_fusion_weights sensor_confidence s"
| "step s (GenerateAssessment now current_time) =
     snd (generate_comprehensive_assessment now current_time s)"
| "step s (GetDataSummary now) = snd (get_data_summary now s)"

definition run :: "sensor_fusion \<Rightarrow> call list \<Rightarrow> sensor_fusion" where
  "run s cs = foldl step s cs"

text \<open>
  The entries that a sequence of calls pushes on each channel, in arrival order; a
  call that raises pushes none.
\<close>

fun vision_pushes :: "call list \<Rightarrow> vision_entry list" where
  "vision_pushes [] = []"
| "vision_pushes (AddVision now d # cs) =
     (case vision_entry_of now d of
        Inl e \<Rightarrow> vision_pushes cs
      | Inr vision_entry \<Rightarrow> vision_entry # vision_pushes cs)"
| "vision_pushes (c # cs) = vision_pushes cs"

fun obd_pushes :: "call list \<Rightarrow> obd_entry list" where
  "obd_pushes [] = []"
| "obd_pushes (AddObd now d # cs) =
     (case obd_entry_of now d of
        Inl e \<Rightarrow> obd_pushes cs
      | Inr obd_entry \<Rightarrow> obd_entry # obd_pushes cs)"
| "obd_pushes (c # cs) = obd_pushes cs"

fun fatigue_pushes :: "call list \<Rightarrow> fatigue_entry list" where
  "fatigue_pushes [] = []"
| "fatigue_pushes (AddFatigue now d # cs) = fatigue_entry_of now d # fatigue_pushes cs"
| "fatigue_pushes (c # cs) = fatigue_pushes cs"

definition most_recent :: "nat \<Rightarrow> 'a list \<Rightarrow> 'a list" where
  "most_recent n xs = drop (length xs - n) xs"

text \<open>A call that hands \<^verbatim>\<open>adjust_fusion_weights\<close> no negative confidence.\<close>

fun nonneg_call :: "call \<Rightarrow> bool" where
  "nonneg_call (AdjustWeights sensor_confidence) =
     list_all (\<lambda>kc. 0 \<le> snd kc) sensor_confidence"
| "nonneg_call c = True"

text \<open>
  Samples of the shape the methods can take apart: \<^verbatim>\<open>detected_objects\<close> absent or a
  list of dictionaries, \<^verbatim>\<open>behavior_analysis\<close> absent or a dictionary.
\<close>

fun is_detection :: "detected_object \<Rightarrow> bool" where
  "is_detection (Detection d) = True"
| "is_detection NotADict = False"

definition vision_shape_ok :: "vision_data \<Rightarrow> bool" where
  "vision_shape_ok vision_data =
     (case vd_detected_objects vision_data of
        Missing \<Rightarrow> True
      | IsNone \<Rightarrow> False
      | Holds objects \<Rightarrow> list_all is_detection objects)"

definition obd_shape_ok :: "obd_data \<Rightarrow> bool" where
  "obd_shape_ok obd_data = (od_behavior_analysis obd_data \<noteq> IsNone)"


definition nonneg_weights :: "fusion_weights \<Rightarrow> bool" where
  "nonneg_weights w \<longleftrightarrow> 0 \<le> w_vision w \<and> 0 \<le> w_obd w \<and> 0 \<le> w_fatigue w"


section \<open>Concrete inputs\<close>

text \<open>The engine that \<^verbatim>\<open>SensorFusion()\<close> builds, with the default buffer size.\<close>

definition engine10 :: sensor_fusion where
  "engine10 =
     \<lparr>buffer_size = 10,
      vision_buffer = \<lparr>items = [], maxlen = 10\<rparr>,
      obd_buffer = \<lparr>items = [], maxlen = 10\<rparr>,
      fatigue_buffer = \<lparr>items = [], maxlen = 10\<rparr>,
      weights = initial_weights,
      alert_thresholds = initial_thresholds\<rparr>"

definition no_keys_vision :: vision_data where
  "no_keys_vision =
     \<lparr>vd_lane_departure_warning = None, vd_collision_warning = None,
      vd_detected_objects = Missing, vd_confidence = None\<rparr>"

definition no_keys_obd :: obd_data where
  "no_keys_obd =
     \<lparr>od_behavior_analysis = Missing, od_speed = None, od_rpm = None,
      od_throttle_position = None\<rparr>"

definition no_keys_fatigue :: fatigue_data where
  "no_keys_fatigue =
     \<lparr>fd_fatigue_score = None, fd_blink_detected = None, fd_yawn_detected = None,
      fd_ear = None, fd_confidence = None\<rparr>"

definition object_at :: "real \<Rightarrow> detected_object" where
  "object_at r = Detection (Some (Fin r))"

text \<open>
  Eleven OBD samples into the default engine: the first one flags excessive speed,
  the other ten flag nothing.
\<close>

definition speeding_obd :: obd_data where
  "speeding_obd =
     no_keys_obd\<lparr>od_behavior_analysis :=
       Holds (empty_behavior\<lparr>ba_excessive_speed := Some True\<rparr>)\<rparr>"

definition eleven_obd_calls :: "call list" where
  "eleven_obd_calls =
     [AddObd 0 speeding_obd, AddObd 1 no_keys_obd, AddObd 2 no_keys_obd,
      AddObd 3 no_keys_obd, AddObd 4 no_keys_obd, AddObd 5 no_keys_obd,
      AddObd 6 no_keys_obd, AddObd 7 no_keys_obd, AddObd 8 no_keys_obd,
      AddObd 9 no_keys_obd, AddObd 10 no_keys_obd]"

text \<open>Samples for single calls.\<close>

definition warning_vision :: vision_data where
  "warning_vision = no_keys_vision\<lparr>vd_collision_warning := Some True\<rparr>"

definition braking_obd :: obd_data where
  "braking_obd =
     no_keys_obd\<lparr>od_behavior_analysis :=
       Holds (empty_behavior\<lparr>ba_aggressive_braking := Some True\<rparr>)\<rparr>"

definition overconfident_vision :: vision_data where
  "overconfident_vision = no_keys_vision\<lparr>vd_confidence := Some 7\<rparr>"

definition vision_at :: "real \<Rightarrow> vision_data" where
  "vision_at r = no_keys_vision\<lparr>vd_detected_objects := Holds [object_at r]\<rparr>"

text \<open>
  An engine whose vision weight is negative: the default engine after
  \<^verbatim>\<open>adjust_fusion_weights({'vision': -1, 'obd': 2})\<close> and one OBD sample.
\<close>

definition negative_vision_engine :: sensor_fusion where
  "negative_vision_engine =
     snd (add_obd_data 0 no_keys_obd
            (adjust_fusion_weights [(''vision'', - 1), (''obd'', 2)] engine10))"

text \<open>Samples that the methods cannot take apart.\<close>

definition none_objects_vision :: vision_data where
  "none_objects_vision = no_keys_vision\<lparr>vd_detected_objects := IsNone\<rparr>"

definition stray_object_vision :: vision_data where
  "stray_object_vision =
     no_keys_vision\<lparr>vd_detected_objects := Holds [object_at 5, NotADict]\<rparr>"

definition none_behavior_obd :: obd_data where
  "none_behavior_obd = no_keys_obd\<lparr>od_behavior_analysis := IsNone\<rparr>"

section \<open>Bounded histories\<close>

lemma maxlen_deque_append: "maxlen (deque_append d x) = maxlen d"
  by (simp add: deque_append_def Let_def)

lemma items_deque_append:
  "length (items d) \<le> maxlen d \<Longrightarrow>
   items (deque_append d x) = drop (length (items d) + 1 - maxlen d) (items d @ [x])"
  apply (simp add: deque_append_def Let_def)
  apply (cases "items d")
   apply (auto simp: drop_Cons')
  done

lemma foldl_deque_append:
  "length (items d) \<le> maxlen d \<Longrightarrow>
   maxlen (foldl deque_append d xs) = maxlen d \<and>
   items (foldl deque_append d xs)
     = drop (length (items d) + length xs - maxlen d) (items d @ xs)"
proof (induction xs arbitrary: d)
  case Nil
  then show ?case by simp
next
  case (Cons x xs)
  let ?d = "deque_append d x"
  let ?k = "length (items d) + 1 - maxlen d"
  let ?ys = "items d @ [x]"
  have m: "maxlen ?d = maxlen d" by (rule maxlen_deque_append)
  have i: "items ?d = drop ?k ?ys"
    using Cons.prems by (rule items_deque_append)
  have l: "length (items ?d) \<le> maxlen ?d"
    using Cons.prems by (simp add: i m)
  have k: "?k \<le> length ?ys" by simp
  have e: "drop ?k ?ys @ xs = drop ?k (?ys @ xs)"
    using k by (simp del: append_assoc)
  have a: "length (drop ?k ?ys) + length xs - maxlen d + ?k
           = length (items d) + length (x # xs) - maxlen d"
    using Cons.prems by simp
  have "items (foldl deque_append ?d xs)
        = drop (length (drop ?k ?ys) + length xs - maxlen d) (drop ?k ?ys @ xs)"
    using Cons.IH[OF l] by (simp only: m i)
  also have "\<dots> = drop (length (drop ?k ?ys) + length xs - maxlen d + ?k) (?ys @ xs)"
    by (simp only: e drop_drop)
  also have "\<dots> = drop (length (items d) + length (x # xs) - maxlen d) (items d @ x # xs)"
    by (simp only: a) simp
  finally have "items (foldl deque_append d (x # xs))
        = drop (length (items d) + length (x # xs) - maxlen d) (items d @ x # xs)"
    by simp
  moreover have "maxlen (foldl deque_append d (x # xs)) = maxlen d"
    using Cons.IH[OF l] m by simp
  ultimately show ?case by blast
qed

lemma foldl_deque_append_empty:
  "items (foldl deque_append \<lparr>items = [], maxlen = n\<rparr> xs) = most_recent n xs"
  using foldl_deque_append[of "\<lparr>items = [], maxlen = n\<rparr>" xs]
  by (simp add: most_recent_def)

lemma length_most_recent: "length (most_recent n xs) \<le> n"
  by (simp add: most_recent_def)

lemma step_vision_buffer:
  "vision_buffer (step s c) =
     foldl deque_append (vision_buffer s) (vision_pushes [c])"
  by (cases c)
     (simp_all add: add_vision_data_def add_obd_data_def add_fatigue_data_def
        adjust_fusion_weights_def generate_comprehensive_assessment_def
        get_data_summary_def Let_def split: sum.splits)

lemma vision_pushes_Cons: "vision_pushes (c # cs) = vision_pushes [c] @ vision_pushes cs"
  by (cases c) (simp_all split: sum.splits)

lemma run_vision_buffer:
  "vision_buffer (run s cs) = foldl deque_append (vision_buffer s) (vision_pushes cs)"
proof (induction cs arbitrary: s)
  case Nil
  show ?case by (simp add: run_def)
next
  case (Cons c cs)
  have "vision_buffer (run s (c # cs)) = vision_buffer (run (step s c) cs)"
    by (simp add: run_def)
  also have "\<dots> = foldl deque_append (vision_buffer (step s c)) (vision_pushes cs)"
    by (rule Cons.IH)
  also have "\<dots> = foldl deque_append (vision_buffer s) (vision_pushes [c] @ vision_pushes cs)"
    by (simp only: step_vision_buffer foldl_append)
  finally show ?case by (simp only: vision_pushes_Cons[of c cs])
qed

lemma step_obd_buffer:
  "obd_buffer (step s c) = foldl deque_append (obd_buffer s) (obd_pushes [c])"
  by (cases c)
     (simp_all add: add_vision_data_def add_obd_data_def add_fatigue_data_def
        adjust_fusion_weights_def generate_comprehensive_assessment_def
        get_data_summary_def Let_def split: sum.splits)

lemma obd_pushes_Cons: "obd_pushes (c # cs) = obd_pushes [c] @ obd_pushes cs"
  by (cases c) (simp_all split: sum.splits)

lemma run_obd_buffer:
  "obd_buffer (run s cs) = foldl deque_append (obd_buffer s) (obd_pushes cs)"
proof (induction cs arbitrary: s)
  case Nil
  show ?case by (simp add: run_def)
next
  case (Cons c cs)
  have "obd_buffer (run s (c # cs)) = obd_buffer (run (step s c) cs)"
    by (simp add: run_def)
  also have "\<dots> = foldl deque_append (obd_buffer (step s c)) (obd_pushes cs)"
    by (rule Cons.IH)
  also have "\<dots> = foldl deque_append (obd_buffer s) (obd_pushes [c] @ obd_pushes cs)"
    by (simp only: step_obd_buffer foldl_append)
  finally show ?case by (simp only: obd_pushes_Cons[of c cs])
qed

lemma step_fatigue_buffer:
  "fatigue_buffer (step s c) = foldl deque_append (fatigue_buffer s) (fatigue_pushes [c])"
  by (cases c)
     (simp_all add: add_vision_data_def add_obd_data_def add_fatigue_data_def
        adjust_fusion_weights_def generate_comprehensive_assessment_def
        get_data_summary_def Let_def split: sum.splits)

lemma fatigue_pushes_Cons:
  "fatigue_pushes (c # cs) = fatigue_pushes [c] @ fatigue_pushes cs"
  by (cases c) simp_all

lemma run_fatigue_buffer:
  "fatigue_buffer (run s cs) = foldl deque_append (fatigue_buffer s) (fatigue_pushes cs)"
proof (induction cs arbitrary: s)
  case Nil
  show ?case by (simp add: run_def)
next
  case (Cons c cs)
  have "fatigue_buffer (run s (c # cs)) = fatigue_buffer (run (step s c) cs)"
    by (simp add: run_def)
  also have "\<dots> = foldl deque_append (fatigue_buffer (step s c)) (fatigue_pushes cs)"
    by (rule Cons.IH)
  also have "\<dots>
      = foldl deque_append (fatigue_buffer s) (fatigue_pushes [c] @ fatigue_pushes cs)"
    by (simp only: step_fatigue_buffer foldl_append)
  finally show ?case by (simp only: fatigue_pushes_Cons[of c cs])
qed

lemma init_buffers:
  assumes "SensorFusion_init n = Inr s0"
  shows "vision_buffer s0 = \<lparr>items = [], maxlen = nat n\<rparr>"
    and "obd_buffer s0 = \<lparr>items = [], maxlen = nat n\<rparr>"
    and "fatigue_buffer s0 = \<lparr>items = [], maxlen = nat n\<rparr>"
    and "weights s0 = initial_weights"
    and "alert_thresholds s0 = initial_thresholds"
  using assms by (auto simp: SensorFusion_init_def split: if_splits)

lemma init_engine10: "SensorFusion_init 10 = Inr engine10"
  by (simp add: SensorFusion_init_def engine10_def)

text \<open>
  Claim C5. Whatever sequence of calls a freshly built engine of buffer size \<open>n\<close>
  receives, each of its three histories never holds more than \<open>n\<close> entries, and
  holds exactly the last \<open>n\<close> entries pushed on its channel, in arrival order (all of
  them while fewer than \<open>n\<close> were pushed): each overflow evicts the oldest entry.
\<close>

theorem history_bound:
  assumes "SensorFusion_init n = Inr s0"
  shows "items (vision_buffer (run s0 cs)) = most_recent (nat n) (vision_pushes cs) \<and>
         items (obd_buffer (run s0 cs)) = most_recent (nat n) (obd_pushes cs) \<and>
         items (fatigue_buffer (run s0 cs)) = most_recent (nat n) (fatigue_pushes cs) \<and>
         length (items (vision_buffer (run s0 cs))) \<le> nat n \<and>
         length (items (obd_buffer (run s0 cs))) \<le> nat n \<and>
         length (items (fatigue_buffer (run s0 cs))) \<le> nat n"
proof -
  have v: "items (vision_buffer (run s0 cs)) = most_recent (nat n) (vision_pushes cs)"
    by (simp only: run_vision_buffer init_buffers(1)[OF assms] foldl_deque_append_empty)
  have ob: "items (obd_buffer (run s0 cs)) = most_recent (nat n) (obd_pushes cs)"
    by (simp only: run_obd_buffer init_buffers(2)[OF assms] foldl_deque_append_empty)
  have f: "items (fatigue_buffer (run s0 cs)) = most_recent (nat n) (fatigue_pushes cs)"
    by (simp only: run_fatigue_buffer init_buffers(3)[OF assms] foldl_deque_append_empty)
  show ?thesis
    by (simp only: v ob f length_most_recent simp_thms)
qed

theorem history_bound_witness:
  "SensorFusion_init 10 = Inr engine10 \<and>
   length (obd_pushes eleven_obd_calls) = 11 \<and>
   items (obd_buffer (run engine10 eleven_obd_calls))
     = map (\<lambda>t. obd_entry_with t no_keys_obd empty_behavior) [1, 2, 3, 4, 5, 6, 7, 8, 9, 10] \<and>
   length (items (obd_buffer (run engine10 eleven_obd_calls))) \<le> 10 \<and>
   items (vision_buffer (run engine10 eleven_obd_calls)) = [] \<and>
   obd_entry_of 0 speeding_obd
     = Inr (obd_entry_with 0 speeding_obd (empty_behavior\<lparr>ba_excessive_speed := Some True\<rparr>)) \<and>
   is_aggressive
     (obd_entry_with 0 speeding_obd (empty_behavior\<lparr>ba_excessive_speed := Some True\<rparr>)) \<and>
   calculate_aggressive_driving_risk (run engine10 eleven_obd_calls) = 0"
proof -
  have n: "\<not> is_aggressive (obd_entry_with t no_keys_obd empty_behavior)" for t
    by (simp add: is_aggressive_def obd_entry_with_def empty_behavior_def get_or_def)
  have e: "obd_entry_of t no_keys_obd = Inr (obd_entry_with t no_keys_obd empty_behavior)" for t
    by (simp add: obd_entry_of_def no_keys_obd_def)
  have s: "obd_entry_of 0 speeding_obd
     = Inr (obd_entry_with 0 speeding_obd (empty_behavior\<lparr>ba_excessive_speed := Some True\<rparr>))"
    by (simp add: obd_entry_of_def speeding_obd_def)
  have a: "is_aggressive
     (obd_entry_with 0 speeding_obd (empty_behavior\<lparr>ba_excessive_speed := Some True\<rparr>))"
    by (simp add: is_aggressive_def obd_entry_with_def empty_behavior_def get_or_def)
  have l: "length (obd_pushes eleven_obd_calls) = 11"
    by (simp add: eleven_obd_calls_def e s)
  have i: "items (obd_buffer (run engine10 eleven_obd_calls))
     = map (\<lambda>t. obd_entry_with t no_keys_obd empty_behavior) [1, 2, 3, 4, 5, 6, 7, 8, 9, 10]"
    using history_bound[OF init_engine10, of eleven_obd_calls]
    by (simp add: eleven_obd_calls_def most_recent_def e s)
  have v: "items (vision_buffer (run engine10 eleven_obd_calls)) = []"
    using history_bound[OF init_engine10, of eleven_obd_calls]
    by (simp add: eleven_obd_calls_def most_recent_def)
  have r: "calculate_aggressive_driving_risk (run engine10 eleven_obd_calls) = 0"
    by (simp add: calculate_aggressive_driving_risk_def i n)
  show ?thesis using init_engine10 l i v s a r by simp
qed

section \<open>The assessment of a fresh engine, alerts, and read-only queries\<close>

lemma init_risks:
  assumes "SensorFusion_init n = Inr s"
  shows "calculate_collision_risk s = 0"
    and "calculate_lane_departure_risk current_time s = 0"
    and "calculate_driver_fatigue_risk s = 0"
    and "calculate_aggressive_driving_risk s = 0"
  by (simp_all add: init_buffers[OF assms] calculate_collision_risk_def
        calculate_lane_departure_risk_def calculate_driver_fatigue_risk_def
        calculate_aggressive_driving_risk_def)

text \<open>
  Claim C6. On a freshly constructed engine, of any buffer size, the assessment has
  all four risks equal to 0, no alert, no recommendation and the safety score 100.
\<close>

theorem empty_state_assessment:
  assumes "SensorFusion_init n = Inr s"
  shows "fst (generate_comprehensive_assessment now current_time s) =
           \<lparr>as_timestamp = now,
            as_risks = \<lparr>r_collision = 0, r_lane_departure = 0,
                        r_driver_fatigue = 0, r_aggressive_driving = 0\<rparr>,
            as_alerts = [],
            as_recommendations = [],
            as_overall_safety_score = 100\<rparr>"
  by (simp add: generate_comprehensive_assessment_def init_risks[OF assms]
        init_buffers(5)[OF assms] alerts_of_def recommendations_of_def safety_score_of_def
        initial_thresholds_def)

theorem empty_state_assessment_witness:
  "SensorFusion_init 10 = Inr engine10 \<and>
   as_overall_safety_score (fst (generate_comprehensive_assessment 3 4 engine10)) = 100 \<and>
   as_alerts (fst (generate_comprehensive_assessment 3 4 engine10)) = [] \<and>
   as_recommendations (fst (generate_comprehensive_assessment 3 4 engine10)) = [] \<and>
   r_collision (as_risks (fst (generate_comprehensive_assessment 3 4 engine10))) = 0"
  using empty_state_assessment[OF init_engine10, of 3 4]
  by (simp add: init_engine10)

text \<open>
  Claim C9. \<^verbatim>\<open>generate_comprehensive_assessment\<close> and \<^verbatim>\<open>get_data_summary\<close> leave the
  engine exactly as they found it: the three histories, the weights and the
  thresholds. Among the calls of \<open>step\<close>, only the three \<^verbatim>\<open>add_*_data\<close> methods and
  \<^verbatim>\<open>adjust_fusion_weights\<close> return a changed engine.
\<close>

theorem queries_read_only:
  "snd (generate_comprehensive_assessment now current_time s) = s \<and>
   snd (get_data_summary now s) = s \<and>
   step s (GenerateAssessment now current_time) = s \<and>
   step s (GetDataSummary now) = s"
  by (simp add: generate_comprehensive_assessment_def get_data_summary_def Let_def)

text \<open>
  Claim C7. The alerts of an assessment are those of its own risks against the
  engine's thresholds. For each of the four domains the comparison is strict: a risk
  equal to its threshold gives no alert of that domain, a risk above it gives exactly
  one, with the type, severity and message of the source; no other alert exists.
\<close>

theorem alert_threshold_edge:
  "as_alerts (fst (generate_comprehensive_assessment now current_time s))
     = alerts_of (alert_thresholds s)
         (as_risks (fst (generate_comprehensive_assessment now current_time s))) \<and>
   filter (\<lambda>al. al_type al = ''COLLISION_WARNING'') (alerts_of th risks)
     = (if th_collision_risk th < r_collision risks
        then [\<lparr>al_type = ''COLLISION_WARNING'', al_severity = ''HIGH'',
               al_message = ''Collision risk detected! Maintain safe distance.''\<rparr>]
        else []) \<and>
   filter (\<lambda>al. al_type al = ''LANE_DEPARTURE'') (alerts_of th risks)
     = (if th_lane_departure th < r_lane_departure risks
        then [\<lparr>al_type = ''LANE_DEPARTURE'', al_severity = ''MEDIUM'',
               al_message = ''Lane departure detected. Return to lane.''\<rparr>]
        else []) \<and>
   filter (\<lambda>al. al_type al = ''FATIGUE_WARNING'') (alerts_of th risks)
     = (if th_driver_fatigue th < r_driver_fatigue risks
        then [\<lparr>al_type = ''FATIGUE_WARNING'', al_severity = ''HIGH'',
               al_message = ''Driver fatigue detected. Take a break.''\<rparr>]
        else []) \<and>
   filter (\<lambda>al. al_type al = ''AGGRESSIVE_DRIVING'') (alerts_of th risks)
     = (if th_aggressive_driving th < r_aggressive_driving risks
        then [\<lparr>al_type = ''AGGRESSIVE_DRIVING'', al_severity = ''MEDIUM'',
               al_message = ''Aggressive driving detected. Drive more calmly.''\<rparr>]
        else []) \<and>
   set (alerts_of th risks)
     \<subseteq> {collision_alert, lane_alert, fatigue_alert, aggressive_alert}"
  by (simp add: generate_comprehensive_assessment_def Let_def alerts_of_def
        collision_alert_def lane_alert_def fatigue_alert_def aggressive_alert_def)

section \<open>Collision risk with one empty history\<close>

lemma warning_vision_entry:
  "vision_entry_of now warning_vision = Inr (vision_entry_with now warning_vision 0 PosInf)"
  by (simp add: vision_entry_of_def objects_detected_of_def get_closest_object_distance_def
        warning_vision_def no_keys_vision_def)

lemma braking_obd_entry:
  "obd_entry_of now braking_obd
     = Inr (obd_entry_with now braking_obd
              (empty_behavior\<lparr>ba_aggressive_braking := Some True\<rparr>))"
  by (simp add: obd_entry_of_def braking_obd_def no_keys_obd_def)

lemma warning_vision_risk:
  "vision_risk_of (vision_entry_with now warning_vision 0 PosInf) = 8 / 10"
  by (simp add: vision_risk_of_def vision_entry_with_def warning_vision_def
        no_keys_vision_def get_or_def)

lemma braking_obd_risk:
  "obd_risk_of (obd_entry_with now braking_obd
                  (empty_behavior\<lparr>ba_aggressive_braking := Some True\<rparr>)) = 3 / 10"
  by (simp add: obd_risk_of_def obd_entry_with_def braking_obd_def no_keys_obd_def
        empty_behavior_def get_or_def Let_def)

text \<open>
  The statement "with exactly one of the vision and OBD histories empty, the other
  one still contributes to the collision risk" fails: after one vision sample with a
  collision warning and no OBD sample, the vision share alone would be 0.4 but the
  method returns 0; after one OBD sample with aggressive braking and no vision sample
  the OBD share alone would be 0.09 and the method returns 0.
\<close>

theorem collision_risk_needs_both_counterexample:
  "add_vision_data 0 warning_vision engine10
     = (None, engine10\<lparr>vision_buffer :=
                \<lparr>items = [vision_entry_with 0 warning_vision 0 PosInf], maxlen = 10\<rparr>\<rparr>) \<and>
   items (obd_buffer (snd (add_vision_data 0 warning_vision engine10))) = [] \<and>
   max 0 (min 1 (vision_risk_of (vision_entry_with 0 warning_vision 0 PosInf)
                 * w_vision (weights (snd (add_vision_data 0 warning_vision engine10)))))
     = 4 / 10 \<and>
   calculate_collision_risk (snd (add_vision_data 0 warning_vision engine10)) = 0 \<and>
   add_obd_data 0 braking_obd engine10
     = (None, engine10\<lparr>obd_buffer :=
                \<lparr>items = [obd_entry_with 0 braking_obd
                             (empty_behavior\<lparr>ba_aggressive_braking := Some True\<rparr>)],
                 maxlen = 10\<rparr>\<rparr>) \<and>
   items (vision_buffer (snd (add_obd_data 0 braking_obd engine10))) = [] \<and>
   max 0 (min 1 (obd_risk_of (obd_entry_with 0 braking_obd
                                (empty_behavior\<lparr>ba_aggressive_braking := Some True\<rparr>))
                 * w_obd (weights (snd (add_obd_data 0 braking_obd engine10))))) = 9 / 100 \<and>
   calculate_collision_risk (snd (add_obd_data 0 braking_obd engine10)) = 0"
  by (simp add: add_vision_data_def add_obd_data_def warning_vision_entry braking_obd_entry
        warning_vision_risk braking_obd_risk engine10_def deque_append_def
        calculate_collision_risk_def initial_weights_def)

text \<open>
  Claim C1, as the code has it. The guard of \<^verbatim>\<open>calculate_collision_risk\<close> returns 0
  as soon as the vision history or the OBD history is empty; only when both are
  non-empty is the risk the weighted sum of the two latest entries' risks, capped
  at 1.
\<close>

theorem collision_risk_needs_both:
  "(items (vision_buffer s) = [] \<or> items (obd_buffer s) = []
      \<longrightarrow> calculate_collision_risk s = 0) \<and>
   (items (vision_buffer s) \<noteq> [] \<and> items (obd_buffer s) \<noteq> []
      \<longrightarrow> calculate_collision_risk s
          = min (vision_risk_of (last (items (vision_buffer s))) * w_vision (weights s)
                 + obd_risk_of (last (items (obd_buffer s))) * w_obd (weights s)) 1)"
  by (simp add: calculate_collision_risk_def Let_def)

theorem collision_risk_needs_both_witness:
  "items (obd_buffer (snd (add_vision_data 0 warning_vision engine10))) = [] \<and>
   calculate_collision_risk (snd (add_vision_data 0 warning_vision engine10)) = 0 \<and>
   items (vision_buffer
     (snd (add_obd_data 1 braking_obd (snd (add_vision_data 0 warning_vision engine10)))))
     \<noteq> [] \<and>
   items (obd_buffer
     (snd (add_obd_data 1 braking_obd (snd (add_vision_data 0 warning_vision engine10)))))
     \<noteq> [] \<and>
   calculate_collision_risk
     (snd (add_obd_data 1 braking_obd (snd (add_vision_data 0 warning_vision engine10))))
     = 49 / 100"
proof -
  let ?s1 = "snd (add_vision_data 0 warning_vision engine10)"
  let ?s2 = "snd (add_obd_data 1 braking_obd ?s1)"
  let ?ve = "vision_entry_with 0 warning_vision 0 PosInf"
  let ?oe = "obd_entry_with 1 braking_obd (empty_behavior\<lparr>ba_aggressive_braking := Some True\<rparr>)"
  have e1: "items (obd_buffer ?s1) = []"
    by (simp add: add_vision_data_def warning_vision_entry engine10_def)
  have v2: "items (vision_buffer ?s2) = [?ve]"
    by (simp add: add_vision_data_def add_obd_data_def warning_vision_entry braking_obd_entry
        engine10_def deque_append_def)
  have o2: "items (obd_buffer ?s2) = [?oe]"
    by (simp add: add_vision_data_def add_obd_data_def warning_vision_entry braking_obd_entry
        engine10_def deque_append_def)
  have w2: "weights ?s2 = initial_weights"
    by (simp add: add_vision_data_def add_obd_data_def warning_vision_entry braking_obd_entry
        engine10_def)
  have r1: "calculate_collision_risk ?s1 = 0"
    using collision_risk_needs_both[of ?s1] e1 by simp
  have "calculate_collision_risk ?s2
          = min (vision_risk_of ?ve * w_vision initial_weights
                 + obd_risk_of ?oe * w_obd initial_weights) 1"
    using collision_risk_needs_both[of ?s2] by (simp add: v2 o2 w2)
  then have r2: "calculate_collision_risk ?s2 = 49 / 100"
    by (simp add: warning_vision_risk braking_obd_risk initial_weights_def)
  show ?thesis using e1 v2 o2 r1 r2 by simp
qed

section \<open>Ingestion without validation\<close>

lemma distances_of_detections:
  "list_all is_detection objects \<Longrightarrow> \<exists>ds. distances_of objects = Inr ds"
proof (induction objects)
  case Nil
  show ?case by simp
next
  case (Cons obj objects)
  then obtain ds where "distances_of objects = Inr ds" by auto
  with Cons.prems show ?case by (cases obj) simp_all
qed

lemma distances_of_stray:
  "\<not> list_all is_detection objects \<Longrightarrow> distances_of objects = Inl AttributeError"
proof (induction objects)
  case Nil
  then show ?case by simp
next
  case (Cons obj objects)
  show ?case
  proof (cases obj)
    case (Detection d)
    with Cons.prems have "\<not> list_all is_detection objects" by simp
    from Cons.IH[OF this] show ?thesis by (simp add: Detection)
  next
    case NotADict
    then show ?thesis by simp
  qed
qed

lemma vision_entry_of_shape_ok:
  assumes "vision_shape_ok vd"
  shows "\<exists>n d. vision_entry_of now vd = Inr (vision_entry_with now vd n d)"
proof (cases "vd_detected_objects vd")
  case Missing
  then have "vision_entry_of now vd = Inr (vision_entry_with now vd 0 PosInf)"
    by (simp add: vision_entry_of_def objects_detected_of_def get_closest_object_distance_def)
  then show ?thesis by blast
next
  case IsNone
  with assms show ?thesis by (simp add: vision_shape_ok_def)
next
  case (Holds objects)
  with assms have "list_all is_detection objects" by (simp add: vision_shape_ok_def)
  then obtain ds where "distances_of objects = Inr ds"
    using distances_of_detections by blast
  with Holds show ?thesis
    by (cases ds)
       (auto simp: vision_entry_of_def objects_detected_of_def
          get_closest_object_distance_def)
qed

lemma vision_entry_of_shape_bad:
  assumes "\<not> vision_shape_ok vd"
  shows "vision_entry_of now vd = Inl TypeError \<or> vision_entry_of now vd = Inl AttributeError"
proof (cases "vd_detected_objects vd")
  case Missing
  with assms show ?thesis by (simp add: vision_shape_ok_def)
next
  case IsNone
  then show ?thesis by (simp add: vision_entry_of_def objects_detected_of_def)
next
  case (Holds objects)
  with assms have n: "\<not> list_all is_detection objects" by (simp add: vision_shape_ok_def)
  then have "objects \<noteq> []" by auto
  with Holds distances_of_stray[OF n] show ?thesis
    by (simp add: vision_entry_of_def objects_detected_of_def get_closest_object_distance_def)
qed

lemma last_deque_append:
  "0 < maxlen d \<Longrightarrow> items (deque_append d x) \<noteq> [] \<and> last (items (deque_append d x)) = x"
  by (cases "items d") (auto simp: deque_append_def Let_def)

text \<open>
  Claim C2, as the code has it. The three \<^verbatim>\<open>add_*_data\<close> methods validate no field
  and raise no error of their own. A call whose sample has the shape the method can
  take apart (\<^verbatim>\<open>detected_objects\<close> absent or a list of dictionaries,
  \<^verbatim>\<open>behavior_analysis\<close> absent or a dictionary; any fatigue sample) never fails,
  whatever the values of the sample's fields: it builds one entry, stamped with the
  clock reading and carrying the fields as they came (the defaults of \<^verbatim>\<open>.get\<close> for
  absent keys), pushes it on its own history and changes nothing else. The push is
  the deque's: the entry becomes the latest of the history when the bound is above 0,
  the oldest entry leaves when the history is full, and with the bound 0 the history
  stays empty. A call whose sample has another shape raises \<^verbatim>\<open>TypeError\<close> or
  \<^verbatim>\<open>AttributeError\<close> and leaves the whole engine as it was.
\<close>

theorem ingest_never_validates:
  "(vision_shape_ok vd \<longrightarrow>
      (\<exists>n d. vision_entry_of now vd = Inr (vision_entry_with now vd n d) \<and>
             add_vision_data now vd s
               = (None, s\<lparr>vision_buffer :=
                            deque_append (vision_buffer s) (vision_entry_with now vd n d)\<rparr>))) \<and>
   (\<not> vision_shape_ok vd \<longrightarrow>
      add_vision_data now vd s = (Some TypeError, s) \<or>
      add_vision_data now vd s = (Some AttributeError, s)) \<and>
   (obd_shape_ok od \<longrightarrow>
      (\<exists>b. obd_entry_of now od = Inr (obd_entry_with now od b) \<and>
           add_obd_data now od s
             = (None, s\<lparr>obd_buffer :=
                          deque_append (obd_buffer s) (obd_entry_with now od b)\<rparr>))) \<and>
   (\<not> obd_shape_ok od \<longrightarrow> add_obd_data now od s = (Some AttributeError, s)) \<and>
   add_fatigue_data now fd s
     = (None, s\<lparr>fatigue_buffer :=
                  deque_append (fatigue_buffer s) (fatigue_entry_of now fd)\<rparr>) \<and>
   v_timestamp (vision_entry_with now vd n d) = now \<and>
   v_confidence (vision_entry_with now vd n d) = get_or 1 (vd_confidence vd) \<and>
   o_timestamp (obd_entry_with now od b) = now \<and>
   o_speed (obd_entry_with now od b) = get_or 0 (od_speed od) \<and>
   f_timestamp (fatigue_entry_of now fd) = now \<and>
   f_fatigue_score (fatigue_entry_of now fd) = get_or 0 (fd_fatigue_score fd) \<and>
   f_confidence (fatigue_entry_of now fd) = get_or 1 (fd_confidence fd) \<and>
   maxlen (deque_append q x) = maxlen q \<and>
   items (deque_append q x)
     = (if maxlen q < length (items q) + 1 then tl (items q @ [x]) else items q @ [x]) \<and>
   (0 < maxlen q \<longrightarrow> last (items (deque_append q x)) = x) \<and>
   (maxlen q = 0 \<and> items q = [] \<longrightarrow> items (deque_append q x) = [])"
proof -
  have v1: "vision_shape_ok vd \<longrightarrow>
      (\<exists>n d. vision_entry_of now vd = Inr (vision_entry_with now vd n d) \<and>
             add_vision_data now vd s
               = (None, s\<lparr>vision_buffer :=
                            deque_append (vision_buffer s) (vision_entry_with now vd n d)\<rparr>))"
  proof
    assume "vision_shape_ok vd"
    then obtain n d where e: "vision_entry_of now vd = Inr (vision_entry_with now vd n d)"
      using vision_entry_of_shape_ok by blast
    then have "add_vision_data now vd s
               = (None, s\<lparr>vision_buffer :=
                            deque_append (vision_buffer s) (vision_entry_with now vd n d)\<rparr>)"
      by (simp add: add_vision_data_def)
    with e show "\<exists>n d. vision_entry_of now vd = Inr (vision_entry_with now vd n d) \<and>
             add_vision_data now vd s
               = (None, s\<lparr>vision_buffer :=
                            deque_append (vision_buffer s) (vision_entry_with now vd n d)\<rparr>)"
      by blast
  qed
  have v2: "\<not> vision_shape_ok vd \<longrightarrow>
      add_vision_data now vd s = (Some TypeError, s) \<or>
      add_vision_data now vd s = (Some AttributeError, s)"
    using vision_entry_of_shape_bad[of vd now] by (auto simp: add_vision_data_def)
  have o1: "obd_shape_ok od \<longrightarrow>
      (\<exists>b. obd_entry_of now od = Inr (obd_entry_with now od b) \<and>
           add_obd_data now od s
             = (None, s\<lparr>obd_buffer :=
                          deque_append (obd_buffer s) (obd_entry_with now od b)\<rparr>))"
    by (cases "od_behavior_analysis od")
       (auto simp: obd_shape_ok_def obd_entry_of_def add_obd_data_def)
  have o2: "\<not> obd_shape_ok od \<longrightarrow> add_obd_data now od s = (Some AttributeError, s)"
    by (simp add: obd_shape_ok_def obd_entry_of_def add_obd_data_def)
  have f: "add_fatigue_data now fd s
     = (None, s\<lparr>fatigue_buffer :=
                  deque_append (fatigue_buffer s) (fatigue_entry_of now fd)\<rparr>)"
    by (simp add: add_fatigue_data_def)
  have fields: "v_timestamp (vision_entry_with now vd n d) = now \<and>
   v_confidence (vision_entry_with now vd n d) = get_or 1 (vd_confidence vd) \<and>
   o_timestamp (obd_entry_with now od b) = now \<and>
   o_speed (obd_entry_with now od b) = get_or 0 (od_speed od) \<and>
   f_timestamp (fatigue_entry_of now fd) = now \<and>
   f_fatigue_score (fatigue_entry_of now fd) = get_or 0 (fd_fatigue_score fd) \<and>
   f_confidence (fatigue_entry_of now fd) = get_or 1 (fd_confidence fd)"
    by (simp add: vision_entry_with_def obd_entry_with_def fatigue_entry_of_def)
  have q: "maxlen (deque_append q x) = maxlen q \<and>
   items (deque_append q x)
     = (if maxlen q < length (items q) + 1 then tl (items q @ [x]) else items q @ [x]) \<and>
   (0 < maxlen q \<longrightarrow> last (items (deque_append q x)) = x) \<and>
   (maxlen q = 0 \<and> items q = [] \<longrightarrow> items (deque_append q x) = [])"
    using last_deque_append[of q x] by (simp add: deque_append_def Let_def)
  from v1 v2 o1 o2 f fields q show ?thesis by blast
qed

theorem ingest_never_validates_witness:
  "vision_shape_ok overconfident_vision \<and>
   fst (add_vision_data 0 overconfident_vision engine10) = None \<and>
   v_confidence (last (items (vision_buffer
     (snd (add_vision_data 0 overconfident_vision engine10))))) = 7 \<and>
   \<not> obd_shape_ok none_behavior_obd \<and>
   add_obd_data 0 none_behavior_obd engine10 = (Some AttributeError, engine10) \<and>
   \<not> vision_shape_ok none_objects_vision \<and>
   add_vision_data 0 none_objects_vision engine10 = (Some TypeError, engine10) \<and>
   \<not> vision_shape_ok stray_object_vision \<and>
   add_vision_data 0 stray_object_vision engine10 = (Some AttributeError, engine10)"
proof -
  have ok: "vision_shape_ok overconfident_vision"
    by (simp add: vision_shape_ok_def overconfident_vision_def no_keys_vision_def)
  have bad: "\<not> obd_shape_ok none_behavior_obd"
    by (simp add: obd_shape_ok_def none_behavior_obd_def)
  have badv: "\<not> vision_shape_ok none_objects_vision"
    by (simp add: vision_shape_ok_def none_objects_vision_def)
  have bads: "\<not> vision_shape_ok stray_object_vision"
    by (simp add: vision_shape_ok_def stray_object_vision_def object_at_def)
  note w = ingest_never_validates[where vd = overconfident_vision and od = none_behavior_obd
      and s = engine10 and now = 0 and q = "vision_buffer engine10"]
  from w ok obtain n d where
    a: "add_vision_data 0 overconfident_vision engine10
          = (None, engine10\<lparr>vision_buffer :=
               deque_append (vision_buffer engine10)
                 (vision_entry_with 0 overconfident_vision n d)\<rparr>)"
    by blast
  have m: "0 < maxlen (vision_buffer engine10)" by (simp add: engine10_def)
  have c: "v_confidence (vision_entry_with 0 overconfident_vision n d) = 7"
    by (simp add: vision_entry_with_def overconfident_vision_def get_or_def)
  have a1: "fst (add_vision_data 0 overconfident_vision engine10) = None"
    by (simp add: a)
  have a2: "v_confidence (last (items (vision_buffer
     (snd (add_vision_data 0 overconfident_vision engine10))))) = 7"
    using last_deque_append[OF m] by (simp add: a c)
  have b: "add_obd_data 0 none_behavior_obd engine10 = (Some AttributeError, engine10)"
    using w bad by blast
  have t: "add_vision_data 0 none_objects_vision engine10 = (Some TypeError, engine10)"
    by (simp add: add_vision_data_def vision_entry_of_def objects_detected_of_def
        none_objects_vision_def)
  have u: "add_vision_data 0 stray_object_vision engine10 = (Some AttributeError, engine10)"
    by (simp add: add_vision_data_def vision_entry_of_def objects_detected_of_def
        get_closest_object_distance_def stray_object_vision_def object_at_def)
  show ?thesis using ok bad badv bads a1 a2 b t u by simp
qed

text \<open>
  The statement "a sample with a confidence outside [0, 1] is rejected and the
  histories stay unchanged" fails: a vision sample of confidence 7 is accepted and
  pushed on the empty vision history of the default engine, confidence and all.
\<close>

theorem ingest_validation_counterexample:
  "vd_confidence overconfident_vision = Some 7 \<and>
   items (vision_buffer engine10) = [] \<and>
   add_vision_data 0 overconfident_vision engine10
     = (None, engine10\<lparr>vision_buffer :=
          \<lparr>items = [vision_entry_with 0 overconfident_vision 0 PosInf], maxlen = 10\<rparr>\<rparr>) \<and>
   v_confidence (vision_entry_with 0 overconfident_vision 0 PosInf) = 7 \<and>
   vision_buffer (snd (add_vision_data 0 overconfident_vision engine10))
     \<noteq> vision_buffer engine10"
  by (simp add: add_vision_data_def vision_entry_of_def objects_detected_of_def
        get_closest_object_distance_def engine10_def deque_append_def vision_entry_with_def
        overconfident_vision_def no_keys_vision_def get_or_def)

section \<open>Objects without a usable distance\<close>

lemma truthy_distance_iff:
  "truthy_distance d \<longleftrightarrow> d \<noteq> None \<and> d \<noteq> Some (Fin 0)"
  by (cases d rule: truthy_distance.cases) simp_all

lemma distances_of_usable:
  "distances_of
     (filter (\<lambda>obj. obj \<noteq> Detection None \<and> obj \<noteq> Detection (Some (Fin 0))) objects)
   = distances_of objects"
proof (induction objects)
  case Nil
  show ?case by simp
next
  case (Cons obj objects)
  show ?case
  proof (cases obj)
    case NotADict
    then show ?thesis by simp
  next
    case (Detection d)
    show ?thesis
    proof (cases "truthy_distance d")
      case True
      then have "d \<noteq> None \<and> d \<noteq> Some (Fin 0)" by (simp add: truthy_distance_iff)
      with True show ?thesis by (simp add: Detection Cons.IH)
    next
      case False
      then have "d = None \<or> d = Some (Fin 0)" by (simp add: truthy_distance_iff)
      then show ?thesis using False by (auto simp: Detection Cons.IH split: sum.splits)
    qed
  qed
qed

lemma distances_of_no_error_nonempty:
  "distances_of objects = Inr [] \<Longrightarrow>
   filter (\<lambda>obj. obj \<noteq> Detection None \<and> obj \<noteq> Detection (Some (Fin 0))) objects = []"
proof (induction objects)
  case Nil
  show ?case by simp
next
  case (Cons obj objects)
  show ?case
  proof (cases obj)
    case NotADict
    with Cons.prems show ?thesis by simp
  next
    case (Detection d)
    with Cons.prems obtain ds where ds: "distances_of objects = Inr ds"
      by (auto split: sum.splits)
    with Cons.prems Detection have f: "\<not> truthy_distance d" and e: "ds = []"
      by (auto split: if_splits)
    from f have "d = None \<or> d = Some (Fin 0)" by (simp add: truthy_distance_iff)
    with Cons.IH ds e show ?thesis by (auto simp: Detection)
  qed
qed

lemma closest_of_usable:
  "get_closest_object_distance
     (vd\<lparr>vd_detected_objects :=
           Holds (filter (\<lambda>obj. obj \<noteq> Detection None \<and> obj \<noteq> Detection (Some (Fin 0)))
                    objects)\<rparr>)
   = get_closest_object_distance (vd\<lparr>vd_detected_objects := Holds objects\<rparr>)"
proof -
  let ?f = "filter (\<lambda>obj. obj \<noteq> Detection None \<and> obj \<noteq> Detection (Some (Fin 0))) objects"
  show ?thesis
  proof (cases "?f = []")
    case True
    then have "distances_of objects = Inr []"
      using distances_of_usable[of objects] by simp
    with True show ?thesis by (simp add: get_closest_object_distance_def)
  next
    case False
    then have "objects \<noteq> []" by auto
    with False show ?thesis
      by (simp add: get_closest_object_distance_def distances_of_usable)
  qed
qed

lemma py_min_in_set: "py_min d ds \<in> set (d # ds)"
proof (induction ds arbitrary: d)
  case Nil
  show ?case by simp
next
  case (Cons x ds)
  have "py_min (if pf_less x d then x else d) ds \<in> set ((if pf_less x d then x else d) # ds)"
    by (rule Cons.IH)
  then show ?case by (auto split: if_splits)
qed

lemma distances_of_members:
  "distances_of objects = Inr ds \<Longrightarrow>
   \<forall>x \<in> set ds. Detection (Some x) \<in> set objects \<and> x \<noteq> Fin 0"
proof (induction objects arbitrary: ds)
  case Nil
  then show ?case by simp
next
  case (Cons obj objects)
  show ?case
  proof (cases obj)
    case NotADict
    with Cons.prems show ?thesis by simp
  next
    case (Detection d)
    with Cons.prems obtain es where es: "distances_of objects = Inr es"
      and ds: "ds = (if truthy_distance d
                     then (case d of None \<Rightarrow> PosInf | Some x \<Rightarrow> x) # es else es)"
      by (auto split: sum.splits)
    from Cons.IH[OF es] have ih: "\<forall>x \<in> set es. Detection (Some x) \<in> set objects \<and> x \<noteq> Fin 0" .
    show ?thesis
    proof (cases "truthy_distance d")
      case True
      then obtain x where x: "d = Some x" "x \<noteq> Fin 0"
        by (auto simp: truthy_distance_iff)
      with ih ds True show ?thesis by (auto simp: Detection)
    next
      case False
      with ih ds show ?thesis by (auto simp: Detection)
    qed
  qed
qed

text \<open>
  Claim C10. A detected object whose \<^verbatim>\<open>distance\<close> is missing or exactly 0 is left out
  of the closest distance wherever it stands in the list: the closest distance of a
  sample is that of the sample without such objects. When every detected object is
  of that kind the closest distance is \<^verbatim>\<open>float('inf')\<close>, the vision risk of the
  sample is the collision warning's share alone, and so is its part of the collision
  risk: an object reported at 0 metres adds nothing for its distance. When some
  object has a usable distance, the closest distance is the distance of one of them.
\<close>

theorem zero_distance_excluded:
  "get_closest_object_distance (vd\<lparr>vd_detected_objects := Holds objects\<rparr>)
     = get_closest_object_distance
         (vd\<lparr>vd_detected_objects :=
               Holds (filter (\<lambda>obj. obj \<noteq> Detection None \<and> obj \<noteq> Detection (Some (Fin 0)))
                        objects)\<rparr>) \<and>
   ((\<forall>obj \<in> set objects. obj = Detection None \<or> obj = Detection (Some (Fin 0))) \<longrightarrow>
      get_closest_object_distance (vd\<lparr>vd_detected_objects := Holds objects\<rparr>) = Inr PosInf \<and>
      vision_entry_of now (vd\<lparr>vd_detected_objects := Holds objects\<rparr>)
        = Inr (vision_entry_with now (vd\<lparr>vd_detected_objects := Holds objects\<rparr>)
                 (length objects) PosInf) \<and>
      vision_risk_of (vision_entry_with now (vd\<lparr>vd_detected_objects := Holds objects\<rparr>)
                        (length objects) PosInf)
        = (if get_or False (vd_collision_warning vd) then 8 / 10 else 0) \<and>
      (0 < maxlen (vision_buffer s) \<and> items (obd_buffer s) \<noteq> [] \<longrightarrow>
         calculate_collision_risk
             (snd (add_vision_data now (vd\<lparr>vd_detected_objects := Holds objects\<rparr>) s))
           = min ((if get_or False (vd_collision_warning vd) then 8 / 10 else 0)
                    * w_vision (weights s)
                  + obd_risk_of (last (items (obd_buffer s))) * w_obd (weights s)) 1)) \<and>
   (list_all is_detection objects \<and>
    filter (\<lambda>obj. obj \<noteq> Detection None \<and> obj \<noteq> Detection (Some (Fin 0))) objects \<noteq> [] \<longrightarrow>
      (\<exists>x. get_closest_object_distance (vd\<lparr>vd_detected_objects := Holds objects\<rparr>) = Inr x \<and>
           Detection (Some x) \<in> set objects \<and> x \<noteq> Fin 0))"
proof -
  let ?vd = "vd\<lparr>vd_detected_objects := Holds objects\<rparr>"
  let ?usable = "filter (\<lambda>obj. obj \<noteq> Detection None \<and> obj \<noteq> Detection (Some (Fin 0))) objects"
  have p1: "get_closest_object_distance ?vd
     = get_closest_object_distance (vd\<lparr>vd_detected_objects := Holds ?usable\<rparr>)"
    by (rule closest_of_usable[symmetric])
  have p2: "(\<forall>obj \<in> set objects. obj = Detection None \<or> obj = Detection (Some (Fin 0))) \<longrightarrow>
      get_closest_object_distance ?vd = Inr PosInf \<and>
      vision_entry_of now ?vd = Inr (vision_entry_with now ?vd (length objects) PosInf) \<and>
      vision_risk_of (vision_entry_with now ?vd (length objects) PosInf)
        = (if get_or False (vd_collision_warning vd) then 8 / 10 else 0) \<and>
      (0 < maxlen (vision_buffer s) \<and> items (obd_buffer s) \<noteq> [] \<longrightarrow>
         calculate_collision_risk (snd (add_vision_data now ?vd s))
           = min ((if get_or False (vd_collision_warning vd) then 8 / 10 else 0)
                    * w_vision (weights s)
                  + obd_risk_of (last (items (obd_buffer s))) * w_obd (weights s)) 1)"
  proof
    assume a: "\<forall>obj \<in> set objects. obj = Detection None \<or> obj = Detection (Some (Fin 0))"
    then have f: "?usable = []"
      by (induction objects) auto
    have c: "get_closest_object_distance ?vd = Inr PosInf"
      using closest_of_usable[where vd = vd and objects = objects]
      by (simp add: f get_closest_object_distance_def)
    have e: "vision_entry_of now ?vd = Inr (vision_entry_with now ?vd (length objects) PosInf)"
      by (simp add: vision_entry_of_def objects_detected_of_def c)
    have v: "vision_risk_of (vision_entry_with now ?vd (length objects) PosInf)
          = (if get_or False (vd_collision_warning vd) then 8 / 10 else 0)"
      by (simp add: vision_risk_of_def vision_entry_with_def)
    have r: "0 < maxlen (vision_buffer s) \<and> items (obd_buffer s) \<noteq> [] \<longrightarrow>
           calculate_collision_risk (snd (add_vision_data now ?vd s))
             = min ((if get_or False (vd_collision_warning vd) then 8 / 10 else 0)
                      * w_vision (weights s)
                    + obd_risk_of (last (items (obd_buffer s))) * w_obd (weights s)) 1"
    proof
      assume h: "0 < maxlen (vision_buffer s) \<and> items (obd_buffer s) \<noteq> []"
      then have m: "0 < maxlen (vision_buffer s)" by simp
      show "calculate_collision_risk (snd (add_vision_data now ?vd s))
             = min ((if get_or False (vd_collision_warning vd) then 8 / 10 else 0)
                      * w_vision (weights s)
                    + obd_risk_of (last (items (obd_buffer s))) * w_obd (weights s)) 1"
        using last_deque_append[OF m] h
        by (simp add: add_vision_data_def e calculate_collision_risk_def Let_def v)
    qed
    from c e v r
    show "get_closest_object_distance ?vd = Inr PosInf \<and>
        vision_entry_of now ?vd = Inr (vision_entry_with now ?vd (length objects) PosInf) \<and>
        vision_risk_of (vision_entry_with now ?vd (length objects) PosInf)
          = (if get_or False (vd_collision_warning vd) then 8 / 10 else 0) \<and>
        (0 < maxlen (vision_buffer s) \<and> items (obd_buffer s) \<noteq> [] \<longrightarrow>
           calculate_collision_risk (snd (add_vision_data now ?vd s))
             = min ((if get_or False (vd_collision_warning vd) then 8 / 10 else 0)
                      * w_vision (weights s)
                    + obd_risk_of (last (items (obd_buffer s))) * w_obd (weights s)) 1)"
      by blast
  qed
  have p3: "list_all is_detection objects \<and> ?usable \<noteq> [] \<longrightarrow>
      (\<exists>x. get_closest_object_distance ?vd = Inr x \<and>
           Detection (Some x) \<in> set objects \<and> x \<noteq> Fin 0)"
  proof
    assume a: "list_all is_detection objects \<and> ?usable \<noteq> []"
    then obtain ds where ds: "distances_of objects = Inr ds"
      using distances_of_detections by blast
    from a have ne: "objects \<noteq> []" by auto
    from a ds distances_of_no_error_nonempty[of objects] have "ds \<noteq> []" by auto
    then obtain d es where des: "ds = d # es" by (cases ds) auto
    have c: "get_closest_object_distance ?vd = Inr (py_min d es)"
      using ne by (simp add: get_closest_object_distance_def ds des)
    have "py_min d es \<in> set ds" using py_min_in_set[of d es] by (simp add: des)
    with distances_of_members[OF ds]
    have "Detection (Some (py_min d es)) \<in> set objects \<and> py_min d es \<noteq> Fin 0" by blast
    with c show "\<exists>x. get_closest_object_distance ?vd = Inr x \<and>
             Detection (Some x) \<in> set objects \<and> x \<noteq> Fin 0"
      by blast
  qed
  from p1 p2 p3 show ?thesis by blast
qed

theorem zero_distance_excluded_witness:
  "get_closest_object_distance (vision_at 0) = Inr PosInf \<and>
   get_closest_object_distance
     (no_keys_vision\<lparr>vd_detected_objects := Holds [object_at 5, object_at 0]\<rparr>)
     = Inr (Fin 5) \<and>
   calculate_collision_risk
     (snd (add_vision_data 1 (vision_at 0) (snd (add_obd_data 0 no_keys_obd engine10)))) = 0 \<and>
   calculate_collision_risk
     (snd (add_vision_data 1 (vision_at (1 / 10)) (snd (add_obd_data 0 no_keys_obd engine10))))
     = 597 / 2000"
proof -
  let ?s = "snd (add_obd_data 0 no_keys_obd engine10)"
  let ?oe = "obd_entry_with 0 no_keys_obd empty_behavior"
  have s: "?s = engine10\<lparr>obd_buffer := \<lparr>items = [?oe], maxlen = 10\<rparr>\<rparr>"
    by (simp add: add_obd_data_def obd_entry_of_def no_keys_obd_def engine10_def
        deque_append_def)
  have h1: "\<forall>obj \<in> set [object_at 0]. obj = Detection None \<or> obj = Detection (Some (Fin 0))"
    by (simp add: object_at_def)
  have h2: "0 < maxlen (vision_buffer ?s) \<and> items (obd_buffer ?s) \<noteq> []"
    unfolding s by (simp add: engine10_def)
  have o: "obd_risk_of (last (items (obd_buffer ?s))) = 0"
    unfolding s
    by (simp add: obd_risk_of_def obd_entry_with_def no_keys_obd_def empty_behavior_def
        get_or_def Let_def)
  note w = zero_distance_excluded[where vd = no_keys_vision and now = 1
      and objects = "[object_at 0]" and s = ?s]
  have a: "get_closest_object_distance (vision_at 0) = Inr PosInf"
    using w h1 unfolding vision_at_def by blast
  have "calculate_collision_risk (snd (add_vision_data 1 (vision_at 0) ?s))
          = min ((if get_or False (vd_collision_warning no_keys_vision) then 8 / 10 else 0)
                    * w_vision (weights ?s)
                  + obd_risk_of (last (items (obd_buffer ?s))) * w_obd (weights ?s)) 1"
    using w h1 h2 unfolding vision_at_def by blast
  then have c: "calculate_collision_risk (snd (add_vision_data 1 (vision_at 0) ?s)) = 0"
    by (simp add: o no_keys_vision_def get_or_def)
  have "get_closest_object_distance
     (no_keys_vision\<lparr>vd_detected_objects := Holds [object_at 5, object_at 0]\<rparr>)
     = get_closest_object_distance
         (no_keys_vision\<lparr>vd_detected_objects :=
            Holds (filter (\<lambda>obj. obj \<noteq> Detection None \<and> obj \<noteq> Detection (Some (Fin 0)))
                     [object_at 5, object_at 0])\<rparr>)"
    using zero_distance_excluded[where vd = no_keys_vision
        and objects = "[object_at 5, object_at 0]"]
    by blast
  then have b: "get_closest_object_distance
     (no_keys_vision\<lparr>vd_detected_objects := Holds [object_at 5, object_at 0]\<rparr>)
     = Inr (Fin 5)"
    by (simp add: object_at_def get_closest_object_distance_def)
  have d: "calculate_collision_risk (snd (add_vision_data 1 (vision_at (1 / 10)) ?s))
           = 597 / 2000"
    unfolding s
    by (simp add: calculate_collision_risk_def add_vision_data_def vision_entry_of_def
        objects_detected_of_def get_closest_object_distance_def vision_entry_with_def
        engine10_def deque_append_def vision_at_def object_at_def no_keys_vision_def
        no_keys_obd_def empty_behavior_def obd_entry_with_def
        get_or_def vision_risk_of_def obd_risk_of_def initial_weights_def Let_def)
  show ?thesis using a b c d by simp
qed

section \<open>Weights after adjustment\<close>

lemma float_overflow_large: "4 < float_overflow"
  by (simp add: float_overflow_def)

















lemma set_weight_nonneg:
  "nonneg_weights w \<Longrightarrow> 0 \<le> v \<Longrightarrow> nonneg_weights (set_weight w sensor v)"
  by (simp add: nonneg_weights_def set_weight_def)

lemma divide_by_total_nonneg:
  "total_positive t \<Longrightarrow> 0 \<le> c \<Longrightarrow> 0 \<le> divide_by_total c t"
  by (cases t) simp_all

lemma adjust_loop_nonneg:
  "total_positive t \<Longrightarrow> list_all (\<lambda>kc. 0 \<le> snd kc) sc \<Longrightarrow> nonneg_weights w \<Longrightarrow>
   nonneg_weights (adjust_loop t sc w)"
proof (induction sc arbitrary: w)
  case Nil
  then show ?case by simp
next
  case (Cons kc sc)
  obtain k c where kc: "kc = (k, c)" by (cases kc)
  from Cons.prems have c: "0 \<le> c" and r: "list_all (\<lambda>kc. 0 \<le> snd kc) sc"
    by (simp_all add: kc)
  have "0 \<le> divide_by_total c t"
    using Cons.prems(1) c by (rule divide_by_total_nonneg)
  then have "nonneg_weights (set_weight w k (divide_by_total c t))"
    using Cons.prems(3) by (simp add: set_weight_nonneg)
  from Cons.IH[OF Cons.prems(1) r this] show ?case by (simp add: kc)
qed

lemma step_nonneg:
  "nonneg_call c \<Longrightarrow> nonneg_weights (weights s) \<Longrightarrow> nonneg_weights (weights (step s c))"
  by (cases c)
     (simp_all add: add_vision_data_def add_obd_data_def add_fatigue_data_def
        adjust_fusion_weights_def generate_comprehensive_assessment_def
        get_data_summary_def Let_def adjust_loop_nonneg split: sum.splits)

lemma run_nonneg:
  "list_all nonneg_call cs \<Longrightarrow> nonneg_weights (weights s) \<Longrightarrow>
   nonneg_weights (weights (run s cs))"
  by (induction cs arbitrary: s) (simp_all add: run_def step_nonneg)

text \<open>
  Claim C4, as the code has it. The weights start at 0.5, 0.3 and 0.2, and they are
  non-negative in every engine reached from a fresh one by calls whose
  \<^verbatim>\<open>adjust_fusion_weights\<close> arguments hold no negative confidence.
\<close>

theorem weights_stay_nonneg:
  assumes "SensorFusion_init n = Inr s0" and "list_all nonneg_call cs"
  shows "weights s0 = \<lparr>w_vision = 5 / 10, w_obd = 3 / 10, w_fatigue = 2 / 10\<rparr> \<and>
         nonneg_weights (weights s0) \<and>
         nonneg_weights (weights (run s0 cs))"
proof -
  have w: "weights s0 = initial_weights" by (rule init_buffers(4)[OF assms(1)])
  have n: "nonneg_weights (weights s0)"
    by (simp add: w initial_weights_def nonneg_weights_def)
  from run_nonneg[OF assms(2) n] n w show ?thesis
    by (simp add: initial_weights_def)
qed

lemma py_sum_three_zero_one: "py_sum [3, 0, 1] = FinTotal 4"
  using float_overflow_large by (simp add: py_sum_def)

lemma py_sum_two_minus_one: "py_sum [2, - 1] = FinTotal 1"
  using float_overflow_large by (simp add: py_sum_def)

theorem weights_stay_nonneg_witness:
  "SensorFusion_init 10 = Inr engine10 \<and>
   list_all nonneg_call
     [AddObd 0 no_keys_obd, AdjustWeights [(''vision'', 3), (''obd'', 0), (''fatigue'', 1)],
      GetDataSummary 1] \<and>
   weights (run engine10
     [AddObd 0 no_keys_obd, AdjustWeights [(''vision'', 3), (''obd'', 0), (''fatigue'', 1)],
      GetDataSummary 1])
     = \<lparr>w_vision = 3 / 4, w_obd = 0, w_fatigue = 1 / 4\<rparr> \<and>
   nonneg_weights (weights (run engine10
     [AddObd 0 no_keys_obd, AdjustWeights [(''vision'', 3), (''obd'', 0), (''fatigue'', 1)],
      GetDataSummary 1]))"
proof -
  let ?cs = "[AddObd 0 no_keys_obd,
      AdjustWeights [(''vision'', 3), (''obd'', 0), (''fatigue'', 1)], GetDataSummary 1]"
  have h: "list_all nonneg_call ?cs" by simp
  have a: "nonneg_weights (weights (run engine10 ?cs))"
    using weights_stay_nonneg[OF init_engine10 h] by blast
  have b: "weights (run engine10 ?cs) = \<lparr>w_vision = 3 / 4, w_obd = 0, w_fatigue = 1 / 4\<rparr>"
    by (simp add: run_def add_obd_data_def adjust_fusion_weights_def get_data_summary_def
        py_sum_three_zero_one set_weight_def engine10_def initial_weights_def
        split: sum.splits)
  show ?thesis using init_engine10 h a b by simp
qed

text \<open>
  The statement "every call of \<^verbatim>\<open>adjust_fusion_weights\<close>, for any confidence mapping,
  keeps the weights non-negative" fails: \<^verbatim>\<open>{'vision': 2, 'obd': -1}\<close> has the positive
  total 1 and sets the OBD weight of the default engine to -1.
\<close>

theorem weights_stay_nonneg_counterexample:
  "SensorFusion_init 10 = Inr engine10 \<and>
   nonneg_weights (weights engine10) \<and>
   is_dict [(''vision'', 2), (''obd'', - 1)] \<and>
   0 < sum_list (map snd [(''vision'', 2::real), (''obd'', - 1)]) \<and>
   weights (adjust_fusion_weights [(''vision'', 2), (''obd'', - 1)] engine10)
     = \<lparr>w_vision = 2, w_obd = - 1, w_fatigue = 2 / 10\<rparr> \<and>
   \<not> nonneg_weights (weights (adjust_fusion_weights [(''vision'', 2), (''obd'', - 1)] engine10))"
  by (simp add: init_engine10 is_dict_def adjust_fusion_weights_def py_sum_two_minus_one
        set_weight_def engine10_def initial_weights_def nonneg_weights_def)

section \<open>Monotonicity of the collision risk\<close>

lemma deque_append_empty_iff:
  "items (deque_append q e) = [] \<longleftrightarrow> items q = [] \<and> maxlen q = 0"
  by (cases "items q") (auto simp: deque_append_def Let_def)

lemma deque_append_last:
  "items (deque_append q e) \<noteq> [] \<Longrightarrow> last (items (deque_append q e)) = e"
  by (cases "items q") (auto simp: deque_append_def Let_def split: if_splits)

lemma risk_after_push:
  "calculate_collision_risk (s\<lparr>vision_buffer := deque_append (vision_buffer s) e\<rparr>)
     = (if (items (vision_buffer s) = [] \<and> maxlen (vision_buffer s) = 0)
           \<or> items (obd_buffer s) = [] then 0
        else min (vision_risk_of e * w_vision (weights s)
                  + obd_risk_of (last (items (obd_buffer s))) * w_obd (weights s)) 1)"
  using deque_append_last[of "vision_buffer s" e]
  by (auto simp: calculate_collision_risk_def Let_def deque_append_empty_iff)

lemma capped_mono:
  fixes a b w c :: real
  assumes "a \<le> b" and "0 \<le> w"
  shows "min (a * w + c) 1 \<le> min (b * w + c) 1"
proof -
  have "a * w \<le> b * w" using assms by (rule mult_right_mono)
  then show ?thesis by (simp add: min_def)
qed

lemma risk_after_push_mono:
  assumes "vision_risk_of e1 \<le> vision_risk_of e2" and "0 \<le> w_vision (weights s)"
  shows "calculate_collision_risk (s\<lparr>vision_buffer := deque_append (vision_buffer s) e1\<rparr>)
         \<le> calculate_collision_risk (s\<lparr>vision_buffer := deque_append (vision_buffer s) e2\<rparr>)"
  using capped_mono[OF assms] by (simp add: risk_after_push)

lemma closest_finite_entry:
  assumes "get_closest_object_distance vd = Inr (Fin d)"
  shows "\<exists>n. vision_entry_of now vd = Inr (vision_entry_with now vd n (Fin d))"
proof (cases "vd_detected_objects vd")
  case Missing
  with assms show ?thesis by (simp add: get_closest_object_distance_def)
next
  case IsNone
  with assms show ?thesis by (simp add: get_closest_object_distance_def)
next
  case (Holds objects)
  then have "vision_entry_of now vd = Inr (vision_entry_with now vd (length objects) (Fin d))"
    using assms by (simp add: vision_entry_of_def objects_detected_of_def)
  then show ?thesis by blast
qed

lemma closest_never_zero: "get_closest_object_distance vd \<noteq> Inr (Fin 0)"
proof
  assume a: "get_closest_object_distance vd = Inr (Fin 0)"
  show False
  proof (cases "vd_detected_objects vd")
    case Missing
    with a show ?thesis by (simp add: get_closest_object_distance_def)
  next
    case IsNone
    with a show ?thesis by (simp add: get_closest_object_distance_def)
  next
    case (Holds objects)
    show ?thesis
    proof (cases "distances_of objects")
      case (Inl e)
      with a Holds show ?thesis
        by (simp add: get_closest_object_distance_def split: if_splits)
    next
      case (Inr ds)
      show ?thesis
      proof (cases ds)
        case Nil
        with a Holds Inr show ?thesis
          by (simp add: get_closest_object_distance_def split: if_splits)
      next
        case (Cons x xs)
        with a Holds Inr have "py_min x xs = Fin 0"
          by (simp add: get_closest_object_distance_def split: if_splits)
        with py_min_in_set[of x xs] have "Fin 0 \<in> set ds" by (simp add: Cons)
        with distances_of_members[OF Inr] show ?thesis by blast
      qed
    qed
  qed
qed

lemma vision_risk_with_distance:
  "vision_risk_of (vision_entry_with now vd n (Fin d))
     = (if get_or False (vd_collision_warning vd) then 8 / 10 else 0)
       + max 0 (1 - d / 20) * (6 / 10)"
  by (simp add: vision_risk_of_def vision_entry_with_def)

text \<open>
  Claim C8, as the code has it. Take an engine whose vision weight is not negative
  and two vision samples that differ in their detected objects only. If the closest
  usable object distance of the one is at most that of the other, the collision risk
  after ingesting the closer sample is at least the collision risk after ingesting
  the farther one; and the risk after ingesting a sample with the collision warning
  on is at least the risk after ingesting the same sample with the warning off. The
  closest distance of a sample is never 0, since an object at 0 metres is left out
  of it: the distances compared lie in (0, 20] and beyond, not at 0. No strict rise
  is stated.
\<close>

theorem collision_risk_monotone:
  assumes "0 \<le> w_vision (weights s)"
  shows "(get_closest_object_distance (vd\<lparr>vd_detected_objects := far\<rparr>) = Inr (Fin d1) \<and>
          get_closest_object_distance (vd\<lparr>vd_detected_objects := near\<rparr>) = Inr (Fin d2) \<and>
          d2 \<le> d1 \<longrightarrow>
            calculate_collision_risk
              (snd (add_vision_data now (vd\<lparr>vd_detected_objects := far\<rparr>) s))
            \<le> calculate_collision_risk
                (snd (add_vision_data now (vd\<lparr>vd_detected_objects := near\<rparr>) s))) \<and>
         calculate_collision_risk
           (snd (add_vision_data now (vd\<lparr>vd_collision_warning := Some False\<rparr>) s))
         \<le> calculate_collision_risk
             (snd (add_vision_data now (vd\<lparr>vd_collision_warning := Some True\<rparr>) s)) \<and>
         get_closest_object_distance vd \<noteq> Inr (Fin 0)"
proof -
  let ?far = "vd\<lparr>vd_detected_objects := far\<rparr>"
  let ?near = "vd\<lparr>vd_detected_objects := near\<rparr>"
  have p1: "get_closest_object_distance ?far = Inr (Fin d1) \<and>
          get_closest_object_distance ?near = Inr (Fin d2) \<and> d2 \<le> d1 \<longrightarrow>
            calculate_collision_risk (snd (add_vision_data now ?far s))
            \<le> calculate_collision_risk (snd (add_vision_data now ?near s))"
  proof
    assume a: "get_closest_object_distance ?far = Inr (Fin d1) \<and>
          get_closest_object_distance ?near = Inr (Fin d2) \<and> d2 \<le> d1"
    then obtain n1 where e1: "vision_entry_of now ?far
        = Inr (vision_entry_with now ?far n1 (Fin d1))"
      using closest_finite_entry by blast
    from a obtain n2 where e2: "vision_entry_of now ?near
        = Inr (vision_entry_with now ?near n2 (Fin d2))"
      using closest_finite_entry by blast
    from a have le: "d2 \<le> d1" by simp
    have "vision_risk_of (vision_entry_with now ?far n1 (Fin d1))
          \<le> vision_risk_of (vision_entry_with now ?near n2 (Fin d2))"
      using le by (simp add: vision_risk_with_distance max_def)
    from risk_after_push_mono[OF this assms]
    show "calculate_collision_risk (snd (add_vision_data now ?far s))
            \<le> calculate_collision_risk (snd (add_vision_data now ?near s))"
      by (simp add: add_vision_data_def e1 e2)
  qed
  let ?off = "vd\<lparr>vd_collision_warning := Some False\<rparr>"
  let ?on = "vd\<lparr>vd_collision_warning := Some True\<rparr>"
  have p2: "calculate_collision_risk (snd (add_vision_data now ?off s))
         \<le> calculate_collision_risk (snd (add_vision_data now ?on s))"
  proof (cases "vision_entry_of now vd")
    case (Inl e)
    then have "vision_entry_of now ?off = Inl e" "vision_entry_of now ?on = Inl e"
      by (simp_all add: vision_entry_of_def objects_detected_of_def
          get_closest_object_distance_def split: sum.splits field.splits)
    then show ?thesis by (simp add: add_vision_data_def)
  next
    case (Inr entry)
    then obtain n d where nd: "objects_detected_of vd = Inr n"
      "get_closest_object_distance vd = Inr d"
      by (auto simp: vision_entry_of_def split: sum.splits)
    have off: "vision_entry_of now ?off = Inr (vision_entry_with now ?off n d)"
      using nd
      by (simp add: vision_entry_of_def objects_detected_of_def get_closest_object_distance_def)
    have on: "vision_entry_of now ?on = Inr (vision_entry_with now ?on n d)"
      using nd
      by (simp add: vision_entry_of_def objects_detected_of_def get_closest_object_distance_def)
    have "vision_risk_of (vision_entry_with now ?off n d)
          \<le> vision_risk_of (vision_entry_with now ?on n d)"
      by (cases d) (simp_all add: vision_risk_of_def vision_entry_with_def get_or_def)
    from risk_after_push_mono[OF this assms] show ?thesis
      by (simp add: add_vision_data_def off on)
  qed
  from p1 p2 closest_never_zero show ?thesis by blast
qed

lemma closest_vision_at:
  "r \<noteq> 0 \<Longrightarrow> get_closest_object_distance (vision_at r) = Inr (Fin r)"
  by (simp add: vision_at_def object_at_def get_closest_object_distance_def)

lemma entry_vision_at:
  assumes "r \<noteq> 0"
  shows "vision_entry_of now (vision_at r)
           = Inr (vision_entry_with now (vision_at r) 1 (Fin r))"
proof -
  have "objects_detected_of (vision_at r) = Inr 1"
    by (simp add: objects_detected_of_def vision_at_def)
  then show ?thesis
    by (simp add: vision_entry_of_def closest_vision_at[OF assms])
qed

lemma risk_after_add:
  assumes "vision_entry_of now vd = Inr e"
  shows "calculate_collision_risk (snd (add_vision_data now vd s))
     = (if (items (vision_buffer s) = [] \<and> maxlen (vision_buffer s) = 0)
           \<or> items (obd_buffer s) = [] then 0
        else min (vision_risk_of e * w_vision (weights s)
                  + obd_risk_of (last (items (obd_buffer s))) * w_obd (weights s)) 1)"
  by (simp add: add_vision_data_def assms risk_after_push)

lemma entry_vision_at_zero:
  "vision_entry_of now (vision_at 0) = Inr (vision_entry_with now (vision_at 0) 1 PosInf)"
  by (simp add: vision_entry_of_def objects_detected_of_def get_closest_object_distance_def
        vision_at_def object_at_def)

lemma risk_vision_at:
  "vision_risk_of (vision_entry_with now (vision_at r) n (Fin d)) = max 0 (1 - d / 20) * (6 / 10)"
  by (simp add: vision_risk_with_distance vision_at_def no_keys_vision_def get_or_def)

lemma risk_vision_at_inf:
  "vision_risk_of (vision_entry_with now (vision_at r) n PosInf) = 0"
  by (simp add: vision_risk_of_def vision_entry_with_def vision_at_def no_keys_vision_def
        get_or_def)

lemma one_obd_engine:
  "snd (add_obd_data 0 no_keys_obd engine10)
     = engine10\<lparr>obd_buffer :=
         \<lparr>items = [obd_entry_with 0 no_keys_obd empty_behavior], maxlen = 10\<rparr>\<rparr>"
  by (simp add: add_obd_data_def obd_entry_of_def no_keys_obd_def engine10_def
        deque_append_def)

lemma quiet_obd_risk: "obd_risk_of (obd_entry_with now no_keys_obd empty_behavior) = 0"
  by (simp add: obd_risk_of_def obd_entry_with_def no_keys_obd_def empty_behavior_def
        get_or_def Let_def)

lemma py_sum_minus_one_two: "py_sum [- 1, 2] = FinTotal 1"
  using float_overflow_large by (simp add: py_sum_def)

lemma negative_vision_engine_eq:
  "negative_vision_engine
     = engine10\<lparr>weights := \<lparr>w_vision = - 1, w_obd = 2, w_fatigue = 2 / 10\<rparr>,
                obd_buffer :=
                  \<lparr>items = [obd_entry_with 0 no_keys_obd empty_behavior], maxlen = 10\<rparr>\<rparr>"
  by (simp add: negative_vision_engine_def add_obd_data_def obd_entry_of_def
        adjust_fusion_weights_def py_sum_minus_one_two set_weight_def no_keys_obd_def
        engine10_def initial_weights_def deque_append_def)

theorem collision_risk_monotone_witness:
  "0 \<le> w_vision (weights (snd (add_obd_data 0 no_keys_obd engine10))) \<and>
   get_closest_object_distance (vision_at 10) = Inr (Fin 10) \<and>
   get_closest_object_distance (vision_at 5) = Inr (Fin 5) \<and>
   calculate_collision_risk
     (snd (add_vision_data 1 (vision_at 10) (snd (add_obd_data 0 no_keys_obd engine10))))
     = 3 / 20 \<and>
   calculate_collision_risk
     (snd (add_vision_data 1 (vision_at 5) (snd (add_obd_data 0 no_keys_obd engine10))))
     = 9 / 40 \<and>
   calculate_collision_risk
     (snd (add_vision_data 1 (vision_at 10) (snd (add_obd_data 0 no_keys_obd engine10))))
   \<le> calculate_collision_risk
     (snd (add_vision_data 1 (vision_at 5) (snd (add_obd_data 0 no_keys_obd engine10))))"
proof -
  let ?s = "snd (add_obd_data 0 no_keys_obd engine10)"
  have w: "0 \<le> w_vision (weights ?s)"
    unfolding one_obd_engine by (simp add: engine10_def initial_weights_def)
  have c10: "get_closest_object_distance (vision_at 10) = Inr (Fin 10)"
    by (simp add: closest_vision_at)
  have c5: "get_closest_object_distance (vision_at 5) = Inr (Fin 5)"
    by (simp add: closest_vision_at)
  have f: "vision_at 10 = no_keys_vision\<lparr>vd_detected_objects := Holds [object_at 10]\<rparr>"
    and n: "vision_at 5 = no_keys_vision\<lparr>vd_detected_objects := Holds [object_at 5]\<rparr>"
    by (simp_all add: vision_at_def)
  have le: "calculate_collision_risk (snd (add_vision_data 1 (vision_at 10) ?s))
            \<le> calculate_collision_risk (snd (add_vision_data 1 (vision_at 5) ?s))"
    using collision_risk_monotone[OF w, where vd = no_keys_vision
        and far = "Holds [object_at 10]" and near = "Holds [object_at 5]"
        and ?d1.0 = 10 and ?d2.0 = 5 and now = 1]
      c10 c5
    unfolding f n by simp
  have r10: "calculate_collision_risk (snd (add_vision_data 1 (vision_at 10) ?s)) = 3 / 20"
    unfolding one_obd_engine
    by (simp add: risk_after_add[OF entry_vision_at] risk_vision_at
        quiet_obd_risk engine10_def initial_weights_def)
  have r5: "calculate_collision_risk (snd (add_vision_data 1 (vision_at 5) ?s)) = 9 / 40"
    unfolding one_obd_engine
    by (simp add: risk_after_add[OF entry_vision_at] risk_vision_at
        quiet_obd_risk engine10_def initial_weights_def)
  from w c10 c5 r10 r5 le show ?thesis by blast
qed

text \<open>
  The statement "a smaller closest object distance within [0, 20] never lowers the
  collision risk, and raises it strictly unless it is capped at 1" fails three
  times. On the default engine with no OBD sample, a vision sample with its object at
  10 m and one with its object at 5 m both give the risk 0, which is neither a strict
  rise nor the cap. On an engine whose vision weight was set to -1, the sample at
  10 m gives -0.3 and the one at 5 m gives -0.45: the risk falls. On the default
  engine with one OBD sample, an object at 0.1 m gives 0.2985 and an object at 0 m
  gives 0: at the lower end of the range the risk falls too.
\<close>

theorem collision_risk_monotone_counterexample:
  "get_closest_object_distance (vision_at 10) = Inr (Fin 10) \<and>
   get_closest_object_distance (vision_at 5) = Inr (Fin 5) \<and>
   items (obd_buffer engine10) = [] \<and>
   calculate_collision_risk (snd (add_vision_data 0 (vision_at 10) engine10)) = 0 \<and>
   calculate_collision_risk (snd (add_vision_data 0 (vision_at 5) engine10)) = 0 \<and>
   w_vision (weights negative_vision_engine) = - 1 \<and>
   calculate_collision_risk (snd (add_vision_data 1 (vision_at 10) negative_vision_engine))
     = - (3 / 10) \<and>
   calculate_collision_risk (snd (add_vision_data 1 (vision_at 5) negative_vision_engine))
     = - (9 / 20) \<and>
   calculate_collision_risk
     (snd (add_vision_data 1 (vision_at (1 / 10)) (snd (add_obd_data 0 no_keys_obd engine10))))
     = 597 / 2000 \<and>
   calculate_collision_risk
     (snd (add_vision_data 1 (vision_at 0) (snd (add_obd_data 0 no_keys_obd engine10))))
     = 0"
proof -
  have a: "calculate_collision_risk (snd (add_vision_data 0 (vision_at r) engine10)) = 0"
    if "r \<noteq> 0" for r
    using that
    by (simp add: risk_after_add[OF entry_vision_at] engine10_def)
  have b10: "calculate_collision_risk
      (snd (add_vision_data 1 (vision_at 10) negative_vision_engine)) = - (3 / 10)"
    unfolding negative_vision_engine_eq
    by (simp add: risk_after_add[OF entry_vision_at] risk_vision_at
        quiet_obd_risk engine10_def)
  have b5: "calculate_collision_risk
      (snd (add_vision_data 1 (vision_at 5) negative_vision_engine)) = - (9 / 20)"
    unfolding negative_vision_engine_eq
    by (simp add: risk_after_add[OF entry_vision_at] risk_vision_at
        quiet_obd_risk engine10_def)
  have c1: "calculate_collision_risk
     (snd (add_vision_data 1 (vision_at (1 / 10)) (snd (add_obd_data 0 no_keys_obd engine10))))
     = 597 / 2000"
    unfolding one_obd_engine
    by (simp add: risk_after_add[OF entry_vision_at] risk_vision_at
        quiet_obd_risk engine10_def initial_weights_def)
  have c0: "calculate_collision_risk
     (snd (add_vision_data 1 (vision_at 0) (snd (add_obd_data 0 no_keys_obd engine10)))) = 0"
    unfolding one_obd_engine
    by (simp add: risk_after_add[OF entry_vision_at_zero] risk_vision_at_inf
        quiet_obd_risk engine10_def initial_weights_def)
  have w: "w_vision (weights negative_vision_engine) = - 1"
    by (simp add: negative_vision_engine_eq)
  have e: "items (obd_buffer engine10) = []" by (simp add: engine10_def)
  from a[of 10] a[of 5] b10 b5 c1 c0 w e show ?thesis
    by (simp add: closest_vision_at)
qed

end
